theory Spec2Isabelle
  imports Main "HOL-Library.Char_ord" "HOL-Library.List_Lexorder" "HOL-Library.Multiset"
begin

section \<open>Strings\<close>

text \<open>
  A Go string is a sequence of bytes, here a \<^typ>\<open>string\<close>; text is held in UTF-8.
  The comparison \<^verbatim>\<open><\<close> of Go strings is the lexicographic order of the bytes, which
  is the order of \<^typ>\<open>char list\<close> here, and \<^verbatim>\<open>strings.Contains\<close> and
  \<^verbatim>\<open>strings.Split\<close> work on the bytes. \<^verbatim>\<open>strings.ToLower\<close>,
  \<^verbatim>\<open>strings.EqualFold\<close> and \<^verbatim>\<open>strings.TrimSpace\<close> work on the characters
  (runes) that the bytes encode, and are modelled so: the decoding and encoding are those
  of Go's package \<^verbatim>\<open>unicode/utf8\<close>, and the tables of letter case and of white space
  are those of the Unicode character database (version 14.0.0), from which the tables of
  Go's package \<^verbatim>\<open>unicode\<close> are generated.
\<close>

definition utf8 :: "nat list \<Rightarrow> string" where
  "utf8 bs = map char_of bs"

definition bytesOf :: "string \<Rightarrow> nat list" where
  "bytesOf s = map of_char s"

subsection \<open>Functions on the bytes\<close>

text \<open>
  \<^verbatim>\<open>strings.HasPrefix\<close>, \<^verbatim>\<open>strings.HasSuffix\<close>, and
  \<^verbatim>\<open>strings.Contains(s, substr)\<close>: \<open>substr\<close> occurs in \<open>s\<close> as a block.
\<close>

fun hasPrefix :: "string \<Rightarrow> string \<Rightarrow> bool" where
  "hasPrefix s [] = True"
| "hasPrefix [] (p # ps) = False"
| "hasPrefix (c # cs) (p # ps) = (c = p \<and> hasPrefix cs ps)"

definition hasSuffix :: "string \<Rightarrow> string \<Rightarrow> bool" where
  "hasSuffix s suffix = hasPrefix (rev s) (rev suffix)"

fun Contains :: "string \<Rightarrow> string \<Rightarrow> bool" where
  "Contains [] substr = (substr = [])"
| "Contains (c # cs) substr = (hasPrefix (c # cs) substr \<or> Contains cs substr)"

text \<open>
  \<^verbatim>\<open>strings.Split(s, sep)\<close> for a separator of one byte: the pieces between the
  separators, one more than there are separators (so the empty string splits to one
  empty piece).
\<close>

fun Split :: "string \<Rightarrow> char \<Rightarrow> string list" where
  "Split [] sep = [[]]"
| "Split (c # cs) sep =
     (if c = sep then [] # Split cs sep
      else (case Split cs sep of
              [] \<Rightarrow> [[c]]
            | p # ps \<Rightarrow> (c # p) # ps))"

subsection \<open>UTF-8\<close>

text \<open>
  \<^verbatim>\<open>utf8.DecodeRune\<close>: the rune at the head of the bytes and the number of bytes it
  takes. Bytes that encode no rune (a stray or missing continuation byte, an overlong
  form, a surrogate, a value above U+10FFFF) give \<^verbatim>\<open>RuneError\<close>, U+FFFD, of width 1.
\<close>

definition RuneError :: nat where
  "RuneError = 65533"

definition isCont :: "nat \<Rightarrow> bool" where
  "isCont b = (128 \<le> b \<and> b \<le> 191)"

fun decodeRune :: "nat list \<Rightarrow> nat \<times> nat" where
  "decodeRune [] = (RuneError, 0)"
| "decodeRune (b0 # bs) =
     (if b0 < 128 then (b0, 1)
      else if 194 \<le> b0 \<and> b0 \<le> 223 then
        (case bs of
           b1 # _ \<Rightarrow>
             if isCont b1 then ((b0 - 192) * 64 + (b1 - 128), 2) else (RuneError, 1)
         | _ \<Rightarrow> (RuneError, 1))
      else if 224 \<le> b0 \<and> b0 \<le> 239 then
        (case bs of
           b1 # b2 # _ \<Rightarrow>
             if (if b0 = 224 then 160 else 128) \<le> b1 \<and> b1 \<le> (if b0 = 237 then 159 else 191) \<and>
                isCont b2
             then ((b0 - 224) * 4096 + (b1 - 128) * 64 + (b2 - 128), 3) else (RuneError, 1)
         | _ \<Rightarrow> (RuneError, 1))
      else if 240 \<le> b0 \<and> b0 \<le> 244 then
        (case bs of
           b1 # b2 # b3 # _ \<Rightarrow>
             if (if b0 = 240 then 144 else 128) \<le> b1 \<and> b1 \<le> (if b0 = 244 then 143 else 191) \<and>
                isCont b2 \<and> isCont b3
             then ((b0 - 240) * 262144 + (b1 - 128) * 4096 + (b2 - 128) * 64 + (b3 - 128), 4)
             else (RuneError, 1)
         | _ \<Rightarrow> (RuneError, 1))
      else (RuneError, 1))"

text \<open>The runes of a string, as a \<^verbatim>\<open>range\<close> loop over it yields them.\<close>

function runes :: "nat list \<Rightarrow> nat list" where
  "runes [] = []"
| "runes (b0 # bs) = fst (decodeRune (b0 # bs)) # runes (drop (snd (decodeRune (b0 # bs)) - 1) bs)"
  by pat_completeness auto
termination
  by (relation "measure length") auto

text \<open>\<^verbatim>\<open>utf8.EncodeRune\<close>; a surrogate or a value above U+10FFFF is written as U+FFFD.\<close>

definition encodeRune :: "nat \<Rightarrow> nat list" where
  "encodeRune r =
     (if r < 128 then [r]
      else if r < 2048 then [192 + r div 64, 128 + r mod 64]
      else if (55296 \<le> r \<and> r \<le> 57343) \<or> r > 1114111 then [239, 191, 189]
      else if r < 65536 then [224 + r div 4096, 128 + (r div 64) mod 64, 128 + r mod 64]
      else [240 + r div 262144, 128 + (r div 4096) mod 64, 128 + (r div 64) mod 64,
            128 + r mod 64])"

subsection \<open>Letter case\<close>

text \<open>
  A table of letter case is a list of ranges \<open>(lo, hi, stride, target)\<close>: the runes
  \<open>lo, lo + stride, \<dots>\<close> up to \<open>hi\<close> are mapped to \<open>target, target + stride, \<dots>\<close>;
  a rune in no range is mapped to itself. The tables below are given row by row, the
  row of a rune \<open>r\<close> being \<open>r div 256\<close>.
\<close>

fun lookupCase :: "(nat \<times> nat \<times> nat \<times> nat) list \<Rightarrow> nat \<Rightarrow> nat" where
  "lookupCase [] r = r"
| "lookupCase ((lo, hi, stride, target) # ranges) r =
     (if lo \<le> r \<and> r \<le> hi \<and> (r - lo) mod stride = 0 then target + (r - lo)
      else lookupCase ranges r)"

text \<open>The simple lower case mappings of the Unicode character database.\<close>

definition lowerRanges :: "nat \<Rightarrow> (nat \<times> nat \<times> nat \<times> nat) list" where
  "lowerRanges row =
     (if row = 0 then [(65, 90, 1, 97), (192, 214, 1, 224), (216, 222, 1, 248)]
      else if row = 1 then [(256, 302, 2, 257), (304, 304, 1, 105), (306, 310, 2, 307), (313,
        327, 2, 314), (330, 374, 2, 331), (376, 376, 1, 255), (377, 381, 2, 378), (385, 385,
        1, 595), (386, 388, 2, 387), (390, 390, 1, 596), (391, 391, 1, 392), (393, 394, 1,
        598), (395, 395, 1, 396), (398, 398, 1, 477), (399, 399, 1, 601), (400, 400, 1,
        603), (401, 401, 1, 402), (403, 403, 1, 608), (404, 404, 1, 611), (406, 406, 1,
        617), (407, 407, 1, 616), (408, 408, 1, 409), (412, 412, 1, 623), (413, 413, 1,
        626), (415, 415, 1, 629), (416, 420, 2, 417), (422, 422, 1, 640), (423, 423, 1,
        424), (425, 425, 1, 643), (428, 428, 1, 429), (430, 430, 1, 648), (431, 431, 1,
        432), (433, 434, 1, 650), (435, 437, 2, 436), (439, 439, 1, 658), (440, 440, 1,
        441), (444, 444, 1, 445), (452, 452, 1, 454), (453, 453, 1, 454), (455, 455, 1,
        457), (456, 456, 1, 457), (458, 458, 1, 460), (459, 475, 2, 460), (478, 494, 2,
        479), (497, 497, 1, 499), (498, 500, 2, 499), (502, 502, 1, 405), (503, 503, 1,
        447), (504, 510, 2, 505)]
      else if row = 2 then [(512, 542, 2, 513), (544, 544, 1, 414), (546, 562, 2, 547), (570,
        570, 1, 11365), (571, 571, 1, 572), (573, 573, 1, 410), (574, 574, 1, 11366), (577,
        577, 1, 578), (579, 579, 1, 384), (580, 580, 1, 649), (581, 581, 1, 652), (582, 590,
        2, 583)]
      else if row = 3 then [(880, 882, 2, 881), (886, 886, 1, 887), (895, 895, 1, 1011), (902,
        902, 1, 940), (904, 906, 1, 941), (908, 908, 1, 972), (910, 911, 1, 973), (913, 929,
        1, 945), (931, 939, 1, 963), (975, 975, 1, 983), (984, 1006, 2, 985), (1012, 1012,
        1, 952), (1015, 1015, 1, 1016), (1017, 1017, 1, 1010), (1018, 1018, 1, 1019), (1021,
        1023, 1, 891)]
      else if row = 4 then [(1024, 1039, 1, 1104), (1040, 1071, 1, 1072), (1120, 1152, 2, 1121),
        (1162, 1214, 2, 1163), (1216, 1216, 1, 1231), (1217, 1229, 2, 1218), (1232, 1278, 2,
        1233)]
      else if row = 5 then [(1280, 1326, 2, 1281), (1329, 1366, 1, 1377)]
      else if row = 16 then [(4256, 4293, 1, 11520), (4295, 4295, 1, 11559), (4301, 4301, 1,
        11565)]
      else if row = 19 then [(5024, 5103, 1, 43888), (5104, 5109, 1, 5112)]
      else if row = 28 then [(7312, 7354, 1, 4304), (7357, 7359, 1, 4349)]
      else if row = 30 then [(7680, 7828, 2, 7681), (7838, 7838, 1, 223), (7840, 7934, 2, 7841)]
      else if row = 31 then [(7944, 7951, 1, 7936), (7960, 7965, 1, 7952), (7976, 7983, 1, 7968),
        (7992, 7999, 1, 7984), (8008, 8013, 1, 8000), (8025, 8031, 2, 8017), (8040, 8047, 1,
        8032), (8072, 8079, 1, 8064), (8088, 8095, 1, 8080), (8104, 8111, 1, 8096), (8120,
        8121, 1, 8112), (8122, 8123, 1, 8048), (8124, 8124, 1, 8115), (8136, 8139, 1, 8050),
        (8140, 8140, 1, 8131), (8152, 8153, 1, 8144), (8154, 8155, 1, 8054), (8168, 8169, 1,
        8160), (8170, 8171, 1, 8058), (8172, 8172, 1, 8165), (8184, 8185, 1, 8056), (8186,
        8187, 1, 8060), (8188, 8188, 1, 8179)]
      else if row = 33 then [(8486, 8486, 1, 969), (8490, 8490, 1, 107), (8491, 8491, 1, 229),
        (8498, 8498, 1, 8526), (8544, 8559, 1, 8560), (8579, 8579, 1, 8580)]
      else if row = 36 then [(9398, 9423, 1, 9424)]
      else if row = 44 then [(11264, 11311, 1, 11312), (11360, 11360, 1, 11361), (11362, 11362,
        1, 619), (11363, 11363, 1, 7549), (11364, 11364, 1, 637), (11367, 11371, 2, 11368),
        (11373, 11373, 1, 593), (11374, 11374, 1, 625), (11375, 11375, 1, 592), (11376,
        11376, 1, 594), (11378, 11378, 1, 11379), (11381, 11381, 1, 11382), (11390, 11391,
        1, 575), (11392, 11490, 2, 11393), (11499, 11501, 2, 11500), (11506, 11506, 1,
        11507)]
      else if row = 166 then [(42560, 42604, 2, 42561), (42624, 42650, 2, 42625)]
      else if row = 167 then [(42786, 42798, 2, 42787), (42802, 42862, 2, 42803), (42873, 42875,
        2, 42874), (42877, 42877, 1, 7545), (42878, 42886, 2, 42879), (42891, 42891, 1,
        42892), (42893, 42893, 1, 613), (42896, 42898, 2, 42897), (42902, 42920, 2, 42903),
        (42922, 42922, 1, 614), (42923, 42923, 1, 604), (42924, 42924, 1, 609), (42925,
        42925, 1, 620), (42926, 42926, 1, 618), (42928, 42928, 1, 670), (42929, 42929, 1,
        647), (42930, 42930, 1, 669), (42931, 42931, 1, 43859), (42932, 42946, 2, 42933),
        (42948, 42948, 1, 42900), (42949, 42949, 1, 642), (42950, 42950, 1, 7566), (42951,
        42953, 2, 42952), (42960, 42960, 1, 42961), (42966, 42968, 2, 42967), (42997, 42997,
        1, 42998)]
      else if row = 255 then [(65313, 65338, 1, 65345)]
      else if row = 260 then [(66560, 66599, 1, 66600), (66736, 66771, 1, 66776)]
      else if row = 261 then [(66928, 66938, 1, 66967), (66940, 66954, 1, 66979), (66956, 66962,
        1, 66995), (66964, 66965, 1, 67003)]
      else if row = 268 then [(68736, 68786, 1, 68800)]
      else if row = 280 then [(71840, 71871, 1, 71872)]
      else if row = 366 then [(93760, 93791, 1, 93792)]
      else if row = 489 then [(125184, 125217, 1, 125218)]
      else [])"

text \<open>
  The simple case foldings of the Unicode character database (the entries of status C and
  S of CaseFolding.txt): two runes are in one orbit of \<^verbatim>\<open>unicode.SimpleFold\<close> exactly
  when they have the same folding.
\<close>

definition foldRanges :: "nat \<Rightarrow> (nat \<times> nat \<times> nat \<times> nat) list" where
  "foldRanges row =
     (if row = 0 then [(65, 90, 1, 97), (181, 181, 1, 956), (192, 214, 1, 224), (216, 222,
        1, 248)]
      else if row = 1 then [(256, 302, 2, 257), (306, 310, 2, 307), (313, 327, 2, 314), (330,
        374, 2, 331), (376, 376, 1, 255), (377, 381, 2, 378), (383, 383, 1, 115), (385, 385,
        1, 595), (386, 388, 2, 387), (390, 390, 1, 596), (391, 391, 1, 392), (393, 394, 1,
        598), (395, 395, 1, 396), (398, 398, 1, 477), (399, 399, 1, 601), (400, 400, 1,
        603), (401, 401, 1, 402), (403, 403, 1, 608), (404, 404, 1, 611), (406, 406, 1,
        617), (407, 407, 1, 616), (408, 408, 1, 409), (412, 412, 1, 623), (413, 413, 1,
        626), (415, 415, 1, 629), (416, 420, 2, 417), (422, 422, 1, 640), (423, 423, 1,
        424), (425, 425, 1, 643), (428, 428, 1, 429), (430, 430, 1, 648), (431, 431, 1,
        432), (433, 434, 1, 650), (435, 437, 2, 436), (439, 439, 1, 658), (440, 440, 1,
        441), (444, 444, 1, 445), (452, 452, 1, 454), (453, 453, 1, 454), (455, 455, 1,
        457), (456, 456, 1, 457), (458, 458, 1, 460), (459, 475, 2, 460), (478, 494, 2,
        479), (497, 497, 1, 499), (498, 500, 2, 499), (502, 502, 1, 405), (503, 503, 1,
        447), (504, 510, 2, 505)]
      else if row = 2 then [(512, 542, 2, 513), (544, 544, 1, 414), (546, 562, 2, 547), (570,
        570, 1, 11365), (571, 571, 1, 572), (573, 573, 1, 410), (574, 574, 1, 11366), (577,
        577, 1, 578), (579, 579, 1, 384), (580, 580, 1, 649), (581, 581, 1, 652), (582, 590,
        2, 583)]
      else if row = 3 then [(837, 837, 1, 953), (880, 882, 2, 881), (886, 886, 1, 887), (895,
        895, 1, 1011), (902, 902, 1, 940), (904, 906, 1, 941), (908, 908, 1, 972), (910,
        911, 1, 973), (913, 929, 1, 945), (931, 939, 1, 963), (962, 962, 1, 963), (975, 975,
        1, 983), (976, 976, 1, 946), (977, 977, 1, 952), (981, 981, 1, 966), (982, 982, 1,
        960), (984, 1006, 2, 985), (1008, 1008, 1, 954), (1009, 1009, 1, 961), (1012, 1012,
        1, 952), (1013, 1013, 1, 949), (1015, 1015, 1, 1016), (1017, 1017, 1, 1010), (1018,
        1018, 1, 1019), (1021, 1023, 1, 891)]
      else if row = 4 then [(1024, 1039, 1, 1104), (1040, 1071, 1, 1072), (1120, 1152, 2, 1121),
        (1162, 1214, 2, 1163), (1216, 1216, 1, 1231), (1217, 1229, 2, 1218), (1232, 1278, 2,
        1233)]
      else if row = 5 then [(1280, 1326, 2, 1281), (1329, 1366, 1, 1377)]
      else if row = 16 then [(4256, 4293, 1, 11520), (4295, 4295, 1, 11559), (4301, 4301, 1,
        11565)]
      else if row = 19 then [(5112, 5117, 1, 5104)]
      else if row = 28 then [(7296, 7296, 1, 1074), (7297, 7297, 1, 1076), (7298, 7298, 1, 1086),
        (7299, 7300, 1, 1089), (7301, 7301, 1, 1090), (7302, 7302, 1, 1098), (7303, 7303, 1,
        1123), (7304, 7304, 1, 42571), (7312, 7354, 1, 4304), (7357, 7359, 1, 4349)]
      else if row = 30 then [(7680, 7828, 2, 7681), (7835, 7835, 1, 7777), (7838, 7838, 1, 223),
        (7840, 7934, 2, 7841)]
      else if row = 31 then [(7944, 7951, 1, 7936), (7960, 7965, 1, 7952), (7976, 7983, 1, 7968),
        (7992, 7999, 1, 7984), (8008, 8013, 1, 8000), (8025, 8031, 2, 8017), (8040, 8047, 1,
        8032), (8072, 8079, 1, 8064), (8088, 8095, 1, 8080), (8104, 8111, 1, 8096), (8120,
        8121, 1, 8112), (8122, 8123, 1, 8048), (8124, 8124, 1, 8115), (8126, 8126, 1, 953),
        (8136, 8139, 1, 8050), (8140, 8140, 1, 8131), (8152, 8153, 1, 8144), (8154, 8155, 1,
        8054), (8168, 8169, 1, 8160), (8170, 8171, 1, 8058), (8172, 8172, 1, 8165), (8184,
        8185, 1, 8056), (8186, 8187, 1, 8060), (8188, 8188, 1, 8179)]
      else if row = 33 then [(8486, 8486, 1, 969), (8490, 8490, 1, 107), (8491, 8491, 1, 229),
        (8498, 8498, 1, 8526), (8544, 8559, 1, 8560), (8579, 8579, 1, 8580)]
      else if row = 36 then [(9398, 9423, 1, 9424)]
      else if row = 44 then [(11264, 11311, 1, 11312), (11360, 11360, 1, 11361), (11362, 11362,
        1, 619), (11363, 11363, 1, 7549), (11364, 11364, 1, 637), (11367, 11371, 2, 11368),
        (11373, 11373, 1, 593), (11374, 11374, 1, 625), (11375, 11375, 1, 592), (11376,
        11376, 1, 594), (11378, 11378, 1, 11379), (11381, 11381, 1, 11382), (11390, 11391,
        1, 575), (11392, 11490, 2, 11393), (11499, 11501, 2, 11500), (11506, 11506, 1,
        11507)]
      else if row = 166 then [(42560, 42604, 2, 42561), (42624, 42650, 2, 42625)]
      else if row = 167 then [(42786, 42798, 2, 42787), (42802, 42862, 2, 42803), (42873, 42875,
        2, 42874), (42877, 42877, 1, 7545), (42878, 42886, 2, 42879), (42891, 42891, 1,
        42892), (42893, 42893, 1, 613), (42896, 42898, 2, 42897), (42902, 42920, 2, 42903),
        (42922, 42922, 1, 614), (42923, 42923, 1, 604), (42924, 42924, 1, 609), (42925,
        42925, 1, 620), (42926, 42926, 1, 618), (42928, 42928, 1, 670), (42929, 42929, 1,
        647), (42930, 42930, 1, 669), (42931, 42931, 1, 43859), (42932, 42946, 2, 42933),
        (42948, 42948, 1, 42900), (42949, 42949, 1, 642), (42950, 42950, 1, 7566), (42951,
        42953, 2, 42952), (42960, 42960, 1, 42961), (42966, 42968, 2, 42967), (42997, 42997,
        1, 42998)]
      else if row = 171 then [(43888, 43967, 1, 5024)]
      else if row = 255 then [(65313, 65338, 1, 65345)]
      else if row = 260 then [(66560, 66599, 1, 66600), (66736, 66771, 1, 66776)]
      else if row = 261 then [(66928, 66938, 1, 66967), (66940, 66954, 1, 66979), (66956, 66962,
        1, 66995), (66964, 66965, 1, 67003)]
      else if row = 268 then [(68736, 68786, 1, 68800)]
      else if row = 280 then [(71840, 71871, 1, 71872)]
      else if row = 366 then [(93760, 93791, 1, 93792)]
      else if row = 489 then [(125184, 125217, 1, 125218)]
      else [])"

text \<open>\<^verbatim>\<open>unicode.ToLower\<close>, and the folding of a rune.\<close>

definition unicodeToLower :: "nat \<Rightarrow> nat" where
  "unicodeToLower r =
     (if r < 128 then (if 65 \<le> r \<and> r \<le> 90 then r + 32 else r) else lookupCase (lowerRanges (r div 256)) r)"

definition foldRune :: "nat \<Rightarrow> nat" where
  "foldRune r =
     (if r < 128 then (if 65 \<le> r \<and> r \<le> 90 then r + 32 else r) else lookupCase (foldRanges (r div 256)) r)"

text \<open>
  \<^verbatim>\<open>strings.ToLower\<close>: every rune of the string lowered and encoded again (a byte that
  encodes no rune comes out as U+FFFD).
\<close>

definition ToLower :: "string \<Rightarrow> string" where
  "ToLower s = utf8 (concat (map (\<lambda>r. encodeRune (unicodeToLower r)) (runes (bytesOf s))))"

text \<open>
  \<^verbatim>\<open>strings.EqualFold\<close>: the two strings have the same number of runes, and the runes
  at each place are equal or in one orbit of \<^verbatim>\<open>unicode.SimpleFold\<close>.
\<close>

definition foldKeys :: "string \<Rightarrow> nat list" where
  "foldKeys s = map foldRune (runes (bytesOf s))"

definition EqualFold :: "string \<Rightarrow> string \<Rightarrow> bool" where
  "EqualFold s t = (foldKeys s = foldKeys t)"

subsection \<open>White space\<close>

text \<open>
  The runes that \<^verbatim>\<open>unicode.IsSpace\<close> accepts, and their encodings.
  \<^verbatim>\<open>strings.TrimSpace\<close> removes them from the front of the string for as long as
  there is one, then from its end.
\<close>

definition spaceRunes :: "nat list" where
  "spaceRunes =
     [9, 10, 11, 12, 13, 32, 133, 160, 5760, 8192, 8193, 8194, 8195, 8196, 8197, 8198, 8199,
      8200, 8201, 8202, 8232, 8233, 8239, 8287, 12288]"

definition spaceEncodings :: "string list" where
  "spaceEncodings = map (\<lambda>r. utf8 (encodeRune r)) spaceRunes"

fun stripOne :: "string list \<Rightarrow> string \<Rightarrow> string option" where
  "stripOne [] s = None"
| "stripOne (e # es) s =
     (if e \<noteq> [] \<and> hasPrefix s e then Some (drop (length e) s) else stripOne es s)"

function stripLeading :: "string list \<Rightarrow> string \<Rightarrow> string" where
  "stripLeading es s = (case stripOne es s of None \<Rightarrow> s | Some s' \<Rightarrow> stripLeading es s')"
  by pat_completeness auto
termination
proof (relation "measure (\<lambda>(es, s). length s)")
  show "wf (measure (\<lambda>(es, s). length s))" by simp
next
  fix es :: "string list" and s s' :: string
  assume "stripOne es s = Some s'"
  have len: "length e \<le> length t" if "hasPrefix t e" for t e :: string
    using that by (induction t e rule: hasPrefix.induct) simp_all
  from \<open>stripOne es s = Some s'\<close> have "length s' < length s"
  proof (induction es)
    case Nil
    then show ?case by simp
  next
    case (Cons e es)
    show ?case
    proof (cases "e \<noteq> [] \<and> hasPrefix s e")
      case True
      with Cons.prems have s': "s' = drop (length e) s" by simp
      from True have "length e \<le> length s" by (simp add: len)
      moreover from True have "0 < length e" by simp
      ultimately have "length s - length e < length s" by linarith
      with s' show ?thesis by simp
    next
      case False
      with Cons show ?thesis by auto
    qed
  qed
  then show "((es, s'), (es, s)) \<in> measure (\<lambda>(es, s). length s)" by simp
qed

declare stripLeading.simps [simp del]

definition TrimSpace :: "string \<Rightarrow> string" where
  "TrimSpace s =
     rev (stripLeading (map rev spaceEncodings) (rev (stripLeading spaceEncodings s)))"

section \<open>Records\<close>

record Vacancy =
  Title :: string
  Company :: string
  Description :: string
  Keywords :: "string list"
  SourceURL :: string
  Status :: string
  ExperienceLevel :: string
  Notes :: string
  ResumePath :: string
  ResumeFileName :: string

text \<open>The enumerated values, as the UTF-8 bytes of the Russian words of main.go.\<close>

definition possibleStatuses :: "string list" where
  "possibleStatuses =
     [utf8 [208, 157, 208, 190, 208, 178, 208, 176, 209, 143],
      utf8 [208, 159, 208, 187, 208, 176, 208, 189, 208, 184, 209, 128, 209, 131, 209, 142, 32,
            208, 190, 209, 130, 208, 186, 208, 187, 208, 184, 208, 186, 208, 189, 209, 131, 209,
            130, 209, 140, 209, 129, 209, 143],
      utf8 [208, 158, 209, 130, 208, 186, 208, 187, 208, 184, 208, 186, 208, 189, 209, 131, 208,
            187, 209, 129, 209, 143],
      utf8 [208, 162, 208, 181, 209, 129, 209, 130, 208, 190, 208, 178, 208, 190, 208, 181, 32,
            208, 183, 208, 176, 208, 180, 208, 176, 208, 189, 208, 184, 208, 181],
      utf8 [208, 161, 208, 190, 208, 177, 208, 181, 209, 129, 208, 181, 208, 180, 208, 190, 208,
            178, 208, 176, 208, 189, 208, 184, 208, 181],
      utf8 [208, 158, 209, 132, 209, 132, 208, 181, 209, 128],
      utf8 [208, 158, 209, 130, 208, 186, 208, 176, 208, 183],
      utf8 [208, 146, 32, 208, 176, 209, 128, 209, 133, 208, 184, 208, 178, 208, 181]]"

definition possibleExperienceLevels :: "string list" where
  "possibleExperienceLevels =
     [utf8 [208, 157, 208, 181, 32, 209, 131, 208, 186, 208, 176, 208, 183, 208, 176, 208, 189],
      utf8 [208, 145, 208, 181, 208, 183, 32, 208, 190, 208, 191, 209, 139, 209, 130, 208, 176],
      utf8 [208, 156, 208, 181, 208, 189, 208, 181, 208, 181, 32, 49, 32, 208, 179, 208, 190, 208,
            180, 208, 176],
      utf8 [49, 45, 51, 32, 208, 179, 208, 190, 208, 180, 208, 176],
      utf8 [51, 45, 54, 32, 208, 187, 208, 181, 209, 130],
      utf8 [208, 145, 208, 190, 208, 187, 208, 181, 208, 181, 32, 54, 32, 208, 187, 208, 181, 209,
            130]]"

section \<open>Keywords entered as text\<close>

text \<open>
  The loop of the accept handler of \<^verbatim>\<open>showVacancyDialogExt\<close> and of
  \<^verbatim>\<open>saveVacancyDetails\<close> over the pieces of the entered text: each piece is
  trimmed and appended unless it is empty.
\<close>

fun keywordsLoop :: "string list \<Rightarrow> string list \<Rightarrow> string list" where
  "keywordsLoop acc [] = acc"
| "keywordsLoop acc (kw # rest) =
     (let trimmedKw = TrimSpace kw
      in if trimmedKw \<noteq> [] then keywordsLoop (acc @ [trimmedKw]) rest
         else keywordsLoop acc rest)"

definition parseKeywords :: "string \<Rightarrow> string list" where
  "parseKeywords keywordsStr =
     (if TrimSpace keywordsStr \<noteq> [] then keywordsLoop [] (Split keywordsStr (CHR '',''))
      else [])"

section \<open>The record store and the operations that change it\<close>

text \<open>
  The store is the global slice \<^verbatim>\<open>allVacancies\<close>; every operation takes it and
  returns it updated. An index \<^verbatim>\<open>-1\<close> of the source is \<open>None\<close>.
\<close>

fun findVacancyIndexInAllExt :: "Vacancy list \<Rightarrow> string \<Rightarrow> string \<Rightarrow> nat option" where
  "findVacancyIndexInAllExt [] title company = None"
| "findVacancyIndexInAllExt (v # vs) title company =
     (if EqualFold (Title v) title \<and> EqualFold (Company v) company then Some 0
      else map_option Suc (findVacancyIndexInAllExt vs title company))"

definition emptyVacancy :: Vacancy where
  "emptyVacancy =
     \<lparr>Title = [], Company = [], Description = [], Keywords = [], SourceURL = [], Status = [],
      ExperienceLevel = [], Notes = [], ResumePath = [], ResumeFileName = []\<rparr>"

text \<open>The text of the controls of the add/edit dialog when its accept button is clicked.\<close>

record AddVacancyDialog =
  titleLE :: string
  companyLE :: string
  descriptionTE :: string
  keywordsLE :: string
  sourceURLLE :: string
  statusCB :: string
  experienceCB :: string
  notesTE :: string

definition savedVacancyOf :: "AddVacancyDialog \<Rightarrow> Vacancy" where
  "savedVacancyOf dlg =
     emptyVacancy
       \<lparr>Title := TrimSpace (titleLE dlg),
        Company := TrimSpace (companyLE dlg),
        Description := TrimSpace (descriptionTE dlg),
        Keywords := parseKeywords (keywordsLE dlg),
        SourceURL := TrimSpace (sourceURLLE dlg),
        Status := statusCB dlg,
        ExperienceLevel := experienceCB dlg,
        Notes := TrimSpace (notesTE dlg)\<rparr>"

datatype dialog_result = Accepted | TitleEmpty | OriginalNotFound | AlreadyInList

text \<open>
  The accept handler of \<^verbatim>\<open>showVacancyDialogExt\<close>. The original title and company
  are those of \<open>currentVacancy\<close> when the dialog edits, and empty otherwise.
\<close>

definition acceptClicked ::
  "bool \<Rightarrow> bool \<Rightarrow> Vacancy \<Rightarrow> AddVacancyDialog \<Rightarrow> Vacancy list \<Rightarrow> dialog_result \<times> Vacancy list" where
  "acceptClicked isEdit isOnlineSearch currentVacancy dlg allVacancies =
     (let originalTitle = (if isEdit then Title currentVacancy else []);
          originalCompany = (if isEdit then Company currentVacancy else []);
          savedVacancy = savedVacancyOf dlg
      in if Title savedVacancy = [] then (TitleEmpty, allVacancies)
         else if isEdit \<and> \<not> isOnlineSearch then
           (case findVacancyIndexInAllExt allVacancies originalTitle originalCompany of
              Some originalIndex \<Rightarrow> (Accepted, allVacancies[originalIndex := savedVacancy])
            | None \<Rightarrow> (OriginalNotFound, allVacancies))
         else if findVacancyIndexInAllExt allVacancies (Title savedVacancy) (Company savedVacancy)
                 \<noteq> None
           then (AlreadyInList, allVacancies)
         else (Accepted, allVacancies @ [savedVacancy]))"

definition showAddVacancyDialog :: "AddVacancyDialog \<Rightarrow> Vacancy list \<Rightarrow> dialog_result \<times> Vacancy list" where
  "showAddVacancyDialog dlg allVacancies = acceptClicked False False emptyVacancy dlg allVacancies"


text \<open>
  \<^verbatim>\<open>confirmDeleteVacancy\<close>; \<open>confirmed\<close> is the answer to the message box.
\<close>

definition confirmDeleteVacancy :: "Vacancy list \<Rightarrow> int \<Rightarrow> bool \<Rightarrow> Vacancy list \<Rightarrow> Vacancy list" where
  "confirmDeleteVacancy items idx confirmed allVacancies =
     (if idx < 0 \<or> idx \<ge> int (length items) then allVacancies
      else if \<not> confirmed then allVacancies
      else (case findVacancyIndexInAllExt allVacancies (Title (items ! nat idx))
                   (Company (items ! nat idx)) of
              None \<Rightarrow> allVacancies
            | Some originalIndexInAll \<Rightarrow>
                take originalIndexInAll allVacancies @ drop (originalIndexInAll + 1) allVacancies))"

text \<open>
  The controls of the details panel; \<open>None\<close> is a control that is \<^verbatim>\<open>nil\<close>.
\<close>

record DetailsPanel =
  detailStatusCB :: "string option"
  detailExperienceCB :: "string option"
  detailKeywordsLE :: "string option"
  detailSourceURLLE :: "string option"
  detailDescriptionTE :: "string option"
  detailNotesTE :: "string option"

fun equalStringSlices :: "string list \<Rightarrow> string list \<Rightarrow> bool" where
  "equalStringSlices [] [] = True"
| "equalStringSlices (v # a) (w # b) = (v = w \<and> equalStringSlices a b)"
| "equalStringSlices a b = False"

fun findExact :: "Vacancy list \<Rightarrow> string \<Rightarrow> string \<Rightarrow> nat option" where
  "findExact [] title company = None"
| "findExact (v # vs) title company =
     (if Title v = title \<and> Company v = company then Some 0
      else map_option Suc (findExact vs title company))"

text \<open>
  The six blocks of \<^verbatim>\<open>saveVacancyDetails\<close> that compare a control with the record,
  each on the record updated so far and the flag \<open>changed\<close>; a control that is
  \<^verbatim>\<open>nil\<close> is skipped.
\<close>

fun applyStatus :: "string option \<Rightarrow> Vacancy \<times> bool \<Rightarrow> Vacancy \<times> bool" where
  "applyStatus None (v, changed) = (v, changed)"
| "applyStatus (Some newStatus) (v, changed) =
     (if Status v \<noteq> newStatus then (v\<lparr>Status := newStatus\<rparr>, True) else (v, changed))"

fun applyExperience :: "string option \<Rightarrow> Vacancy \<times> bool \<Rightarrow> Vacancy \<times> bool" where
  "applyExperience None (v, changed) = (v, changed)"
| "applyExperience (Some newExperience) (v, changed) =
     (if ExperienceLevel v \<noteq> newExperience then (v\<lparr>ExperienceLevel := newExperience\<rparr>, True)
      else (v, changed))"

fun applyKeywords :: "string option \<Rightarrow> Vacancy \<times> bool \<Rightarrow> Vacancy \<times> bool" where
  "applyKeywords None (v, changed) = (v, changed)"
| "applyKeywords (Some newKeywordsStr) (v, changed) =
     (let newKeywords = parseKeywords newKeywordsStr
      in if \<not> equalStringSlices (Keywords v) newKeywords then (v\<lparr>Keywords := newKeywords\<rparr>, True)
         else (v, changed))"

fun applySourceURL :: "string option \<Rightarrow> Vacancy \<times> bool \<Rightarrow> Vacancy \<times> bool" where
  "applySourceURL None (v, changed) = (v, changed)"
| "applySourceURL (Some newSourceURL) (v, changed) =
     (if SourceURL v \<noteq> newSourceURL then (v\<lparr>SourceURL := newSourceURL\<rparr>, True)
      else (v, changed))"

fun applyDescription :: "string option \<Rightarrow> Vacancy \<times> bool \<Rightarrow> Vacancy \<times> bool" where
  "applyDescription None (v, changed) = (v, changed)"
| "applyDescription (Some newDescription) (v, changed) =
     (if Description v \<noteq> newDescription then (v\<lparr>Description := newDescription\<rparr>, True)
      else (v, changed))"

fun applyNotes :: "string option \<Rightarrow> Vacancy \<times> bool \<Rightarrow> Vacancy \<times> bool" where
  "applyNotes None (v, changed) = (v, changed)"
| "applyNotes (Some newNotes) (v, changed) =
     (if Notes v \<noteq> newNotes then (v\<lparr>Notes := newNotes\<rparr>, True) else (v, changed))"

definition detailsUpdate :: "DetailsPanel \<Rightarrow> Vacancy \<Rightarrow> Vacancy \<times> bool" where
  "detailsUpdate app v0 =
     applyNotes (detailNotesTE app)
       (applyDescription (detailDescriptionTE app)
         (applySourceURL (detailSourceURLLE app)
           (applyKeywords (detailKeywordsLE app)
             (applyExperience (detailExperienceCB app)
               (applyStatus (detailStatusCB app) (v0, False))))))"

datatype details_result = NoSelection | NotInStore | Saved | NoChanges

definition saveVacancyDetails ::
  "Vacancy list \<Rightarrow> int \<Rightarrow> DetailsPanel \<Rightarrow> Vacancy list \<Rightarrow> details_result \<times> Vacancy list" where
  "saveVacancyDetails items idx app allVacancies =
     (if idx < 0 \<or> idx \<ge> int (length items) then (NoSelection, allVacancies)
      else (case findExact allVacancies (Title (items ! nat idx)) (Company (items ! nat idx)) of
              None \<Rightarrow> (NotInStore, allVacancies)
            | Some originalIndexInAll \<Rightarrow>
                (case detailsUpdate app (allVacancies ! originalIndexInAll) of
                   (updatedVacancy, changed) \<Rightarrow>
                     if changed then (Saved, allVacancies[originalIndexInAll := updatedVacancy])
                     else (NoChanges, allVacancies))))"

text \<open>
  The identity of a record is its title and company without regard to case, that is, up
  to \<^verbatim>\<open>strings.EqualFold\<close>; the store is meant to hold each identity once.
\<close>

definition identityKey :: "Vacancy \<Rightarrow> nat list \<times> nat list" where
  "identityKey v = (foldKeys (Title v), foldKeys (Company v))"

definition uniqueIdentities :: "Vacancy list \<Rightarrow> bool" where
  "uniqueIdentities vs = distinct (map identityKey vs)"

section \<open>Filtering and sorting the table\<close>

text \<open>
  The labels of the field selector, as the UTF-8 bytes of the Russian labels of main.go
  (everywhere, by title, by company, by description, by keywords, by status, by
  experience); \<^verbatim>\<open>performSearch\<close> dispatches on the label itself.
\<close>

definition fieldEverywhere :: string where
  "fieldEverywhere =
     utf8 [208, 146, 208, 181, 208, 183, 208, 180, 208, 181]"

definition fieldTitle :: string where
  "fieldTitle =
     utf8 [208, 159, 208, 190, 32, 208, 189, 208, 176, 208, 183, 208, 178, 208, 176,
           208, 189, 208, 184, 209, 142]"

definition fieldCompany :: string where
  "fieldCompany =
     utf8 [208, 159, 208, 190, 32, 208, 186, 208, 190, 208, 188, 208, 191, 208, 176,
           208, 189, 208, 184, 208, 184]"

definition fieldDescription :: string where
  "fieldDescription =
     utf8 [208, 159, 208, 190, 32, 208, 190, 208, 191, 208, 184, 209, 129, 208, 176,
           208, 189, 208, 184, 209, 142]"

definition fieldKeywords :: string where
  "fieldKeywords =
     utf8 [208, 159, 208, 190, 32, 208, 186, 208, 187, 209, 142, 209, 135, 208, 181,
           208, 178, 209, 139, 208, 188, 32, 209, 129, 208, 187, 208, 190, 208, 178,
           208, 176, 208, 188]"

definition fieldStatus :: string where
  "fieldStatus =
     utf8 [208, 159, 208, 190, 32, 209, 129, 209, 130, 208, 176, 209, 130, 209, 131,
           209, 129, 209, 131]"

definition fieldExperience :: string where
  "fieldExperience =
     utf8 [208, 159, 208, 190, 32, 208, 190, 208, 191, 209, 139, 209, 130, 209, 131]"

definition searchFields :: "string list" where
  "searchFields =
     [fieldEverywhere, fieldTitle, fieldCompany, fieldDescription, fieldKeywords, fieldStatus,
      fieldExperience]"

text \<open>
  The controls that \<^verbatim>\<open>performSearch\<close> reads: the index chosen in the field selector
  and the text of the two filters and of the search box.
\<close>

record SearchControls =
  searchFieldCB :: int
  statusFilterCB :: string
  experienceFilterCB :: string
  searchEdit :: string

definition searchInFieldOf :: "SearchControls \<Rightarrow> string" where
  "searchInFieldOf app =
     (if searchFieldCB app \<ge> 0 \<and> searchFieldCB app < int (length searchFields)
      then searchFields ! nat (searchFieldCB app) else fieldEverywhere)"

definition searchTermOf :: "SearchControls \<Rightarrow> string" where
  "searchTermOf app =
     ToLower (if searchInFieldOf app = fieldStatus then statusFilterCB app
              else if searchInFieldOf app = fieldExperience then experienceFilterCB app
              else searchEdit app)"

definition matchField :: "string \<Rightarrow> string \<Rightarrow> string \<Rightarrow> bool" where
  "matchField searchInField searchTerm fieldValue =
     (if searchInField = fieldStatus \<or> searchInField = fieldExperience
      then EqualFold fieldValue searchTerm
      else Contains (ToLower fieldValue) searchTerm)"

fun anyKeywordContains :: "string list \<Rightarrow> string \<Rightarrow> bool" where
  "anyKeywordContains [] searchTerm = False"
| "anyKeywordContains (kw # kws) searchTerm =
     (if Contains (ToLower kw) searchTerm then True else anyKeywordContains kws searchTerm)"

definition found :: "string \<Rightarrow> string \<Rightarrow> Vacancy \<Rightarrow> bool" where
  "found searchInField searchTerm v =
     (if searchInField = fieldTitle then matchField searchInField searchTerm (Title v)
      else if searchInField = fieldCompany then matchField searchInField searchTerm (Company v)
      else if searchInField = fieldDescription then
        matchField searchInField searchTerm (Description v)
      else if searchInField = fieldKeywords then anyKeywordContains (Keywords v) searchTerm
      else if searchInField = fieldStatus then matchField searchInField searchTerm (Status v)
      else if searchInField = fieldExperience then
        matchField searchInField searchTerm (ExperienceLevel v)
      else if Contains (ToLower (Title v)) searchTerm \<or>
              Contains (ToLower (Company v)) searchTerm \<or>
              Contains (ToLower (Description v)) searchTerm \<or>
              Contains (ToLower (Status v)) searchTerm \<or>
              Contains (ToLower (ExperienceLevel v)) searchTerm then True
      else anyKeywordContains (Keywords v) searchTerm)"

fun filterLoop :: "string \<Rightarrow> string \<Rightarrow> Vacancy list \<Rightarrow> Vacancy list \<Rightarrow> Vacancy list" where
  "filterLoop searchInField searchTerm [] filtered = filtered"
| "filterLoop searchInField searchTerm (v # vs) filtered =
     filterLoop searchInField searchTerm vs
       (if found searchInField searchTerm v then filtered @ [v] else filtered)"

text \<open>
  The rows \<^verbatim>\<open>performSearch\<close> assigns to the table model before it sorts them.
\<close>

definition filterVacancies :: "SearchControls \<Rightarrow> Vacancy list \<Rightarrow> Vacancy list" where
  "filterVacancies app currentSearchVacancies =
     (if searchTermOf app = [] \<and> searchInFieldOf app \<noteq> fieldExperience \<and>
         searchInFieldOf app \<noteq> fieldStatus
      then currentSearchVacancies
      else filterLoop (searchInFieldOf app) (searchTermOf app) currentSearchVacancies [])"

datatype SortOrder = SortAscending | SortDescending

definition Less :: "int \<Rightarrow> SortOrder \<Rightarrow> Vacancy \<Rightarrow> Vacancy \<Rightarrow> bool" where
  "Less sortColumn sortOrder a b =
     (let less = (if sortColumn = 0 then ToLower (Title a) < ToLower (Title b)
                  else if sortColumn = 1 then ToLower (Company a) < ToLower (Company b)
                  else if sortColumn = 2 then ToLower (Status a) < ToLower (Status b)
                  else ToLower (Title a) < ToLower (Title b))
      in if sortOrder = SortDescending then \<not> less else less)"

text \<open>The key that \<^verbatim>\<open>Less\<close> compares in a column.\<close>

definition sortKey :: "int \<Rightarrow> Vacancy \<Rightarrow> string" where
  "sortKey sortColumn v =
     (if sortColumn = 0 then ToLower (Title v)
      else if sortColumn = 1 then ToLower (Company v)
      else if sortColumn = 2 then ToLower (Status v)
      else ToLower (Title v))"

text \<open>
  \<^verbatim>\<open>sort.SliceStable\<close> belongs to Go's standard library. On a slice of at most 20
  elements it runs its insertion sort: for \<open>i = 1, 2, \<dots>\<close> the element at \<open>i\<close> is swapped
  with its left neighbour for as long as \<^verbatim>\<open>less\<close> puts it before that neighbour. This
  insertion sort is the model (longer slices are sorted in blocks of 20 that are then
  merged, and give the same result whenever \<^verbatim>\<open>less\<close> is a strict weak order).
  \<open>insertLeft\<close> takes the part already sorted from right to left, nearest neighbour first.
\<close>

fun insertLeft :: "('a \<Rightarrow> 'a \<Rightarrow> bool) \<Rightarrow> 'a \<Rightarrow> 'a list \<Rightarrow> 'a list" where
  "insertLeft lessFn x [] = [x]"
| "insertLeft lessFn x (y # ys) =
     (if lessFn x y then y # insertLeft lessFn x ys else x # y # ys)"

definition SliceStable :: "('a \<Rightarrow> 'a \<Rightarrow> bool) \<Rightarrow> 'a list \<Rightarrow> 'a list" where
  "SliceStable lessFn xs = rev (foldl (\<lambda>sorted x. insertLeft lessFn x sorted) [] xs)"

text \<open>
  \<^verbatim>\<open>VacancyModel.Sort\<close> on the rows of the model, and \<^verbatim>\<open>performSearch\<close>: the rows
  filtered from a copy of the store, sorted by the column and order of the model.
\<close>

definition Sort :: "int \<Rightarrow> SortOrder \<Rightarrow> Vacancy list \<Rightarrow> Vacancy list" where
  "Sort col order' rows = SliceStable (Less col order') rows"

definition performSearch :: "SearchControls \<Rightarrow> int \<Rightarrow> SortOrder \<Rightarrow> Vacancy list \<Rightarrow> Vacancy list" where
  "performSearch app sortColumn sortOrder allVacancies =
     Sort sortColumn sortOrder (filterVacancies app allVacancies)"

section \<open>Online search\<close>

text \<open>
  The texts of the errors that \<^verbatim>\<open>searchVacanciesJooble\<close> builds with
  \<^verbatim>\<open>fmt.Errorf\<close>, as the UTF-8 bytes of the Russian text of main.go. An error of Go
  is modelled by its text, which is all that the caller reads of it.
\<close>

definition errMarshalPrefix :: string where \<comment> \<open>error encoding the request as JSON\<close>
  "errMarshalPrefix =
     utf8 [208, 190, 209, 136, 208, 184, 208, 177, 208, 186, 208, 176, 32, 208, 186, 208,
           190, 208, 180, 208, 184, 209, 128, 208, 190, 208, 178, 208, 176, 208, 189, 208,
           184, 209, 143, 32, 208, 183, 208, 176, 208, 191, 209, 128, 208, 190, 209, 129,
           208, 176, 32, 208, 178, 32, 74, 83, 79, 78, 58, 32]"

definition errNewRequestPrefix :: string where \<comment> \<open>error creating the HTTP request\<close>
  "errNewRequestPrefix =
     utf8 [208, 190, 209, 136, 208, 184, 208, 177, 208, 186, 208, 176, 32, 209, 129, 208,
           190, 208, 183, 208, 180, 208, 176, 208, 189, 208, 184, 209, 143, 32, 72, 84,
           84, 80, 32, 208, 183, 208, 176, 208, 191, 209, 128, 208, 190, 209, 129, 208,
           176, 58, 32]"

definition errCancelledUI :: string where \<comment> \<open>search cancelled by the user (signal from the UI)\<close>
  "errCancelledUI =
     utf8 [208, 191, 208, 190, 208, 184, 209, 129, 208, 186, 32, 208, 190, 209, 130, 208,
           188, 208, 181, 208, 189, 208, 181, 208, 189, 32, 208, 191, 208, 190, 208, 187,
           209, 140, 208, 183, 208, 190, 208, 178, 208, 176, 209, 130, 208, 181, 208, 187,
           208, 181, 208, 188, 32, 40, 209, 129, 208, 184, 208, 179, 208, 189, 208, 176,
           208, 187, 32, 208, 184, 208, 183, 32, 85, 73, 41]"

definition errCancelledContext :: string where \<comment> \<open>search cancelled by the user (HTTP context)\<close>
  "errCancelledContext =
     utf8 [208, 191, 208, 190, 208, 184, 209, 129, 208, 186, 32, 208, 190, 209, 130, 208,
           188, 208, 181, 208, 189, 208, 181, 208, 189, 32, 208, 191, 208, 190, 208, 187,
           209, 140, 208, 183, 208, 190, 208, 178, 208, 176, 209, 130, 208, 181, 208, 187,
           208, 181, 208, 188, 32, 40, 208, 186, 208, 190, 208, 189, 209, 130, 208, 181,
           208, 186, 209, 129, 209, 130, 32, 72, 84, 84, 80, 41]"

definition errDoPrefix :: string where \<comment> \<open>error performing the HTTP request\<close>
  "errDoPrefix =
     utf8 [208, 190, 209, 136, 208, 184, 208, 177, 208, 186, 208, 176, 32, 208, 178, 209,
           139, 208, 191, 208, 190, 208, 187, 208, 189, 208, 181, 208, 189, 208, 184, 209,
           143, 32, 72, 84, 84, 80, 32, 208, 183, 208, 176, 208, 191, 209, 128, 208, 190,
           209, 129, 208, 176, 58, 32]"

definition errCancelledBeforeRead :: string where \<comment> \<open>search cancelled by the user before reading the response\<close>
  "errCancelledBeforeRead =
     utf8 [208, 191, 208, 190, 208, 184, 209, 129, 208, 186, 32, 208, 190, 209, 130, 208,
           188, 208, 181, 208, 189, 208, 181, 208, 189, 32, 208, 191, 208, 190, 208, 187,
           209, 140, 208, 183, 208, 190, 208, 178, 208, 176, 209, 130, 208, 181, 208, 187,
           208, 181, 208, 188, 32, 208, 191, 208, 181, 209, 128, 208, 181, 208, 180, 32,
           209, 135, 209, 130, 208, 181, 208, 189, 208, 184, 208, 181, 208, 188, 32, 208,
           190, 209, 130, 208, 178, 208, 181, 209, 130, 208, 176]"

definition errReadPrefix :: string where \<comment> \<open>error reading the response body\<close>
  "errReadPrefix =
     utf8 [208, 190, 209, 136, 208, 184, 208, 177, 208, 186, 208, 176, 32, 209, 135, 209,
           130, 208, 181, 208, 189, 208, 184, 209, 143, 32, 209, 130, 208, 181, 208, 187,
           208, 176, 32, 208, 190, 209, 130, 208, 178, 208, 181, 209, 130, 208, 176, 58,
           32]"

definition errCancelledBeforeProcessing :: string where \<comment> \<open>search cancelled by the user before processing the response\<close>
  "errCancelledBeforeProcessing =
     utf8 [208, 191, 208, 190, 208, 184, 209, 129, 208, 186, 32, 208, 190, 209, 130, 208,
           188, 208, 181, 208, 189, 208, 181, 208, 189, 32, 208, 191, 208, 190, 208, 187,
           209, 140, 208, 183, 208, 190, 208, 178, 208, 176, 209, 130, 208, 181, 208, 187,
           208, 181, 208, 188, 32, 208, 191, 208, 181, 209, 128, 208, 181, 208, 180, 32,
           208, 190, 208, 177, 209, 128, 208, 176, 208, 177, 208, 190, 209, 130, 208, 186,
           208, 190, 208, 185, 32, 208, 190, 209, 130, 208, 178, 208, 181, 209, 130, 208,
           176]"

definition errStatusPrefix :: string where \<comment> \<open>Jooble API error (HTTP\<close>
  "errStatusPrefix =
     utf8 [208, 190, 209, 136, 208, 184, 208, 177, 208, 186, 208, 176, 32, 65, 80, 73, 32,
           74, 111, 111, 98, 108, 101, 32, 40, 72, 84, 84, 80, 32]"

definition errApiPrefix :: string where \<comment> \<open>Jooble API error\<close>
  "errApiPrefix =
     utf8 [208, 190, 209, 136, 208, 184, 208, 177, 208, 186, 208, 176, 32, 65, 80, 73, 32,
           74, 111, 111, 98, 108, 101, 58, 32]"

definition errCodeInfix :: string where \<comment> \<open> (code: \<close>
  "errCodeInfix =
     utf8 [32, 40, 208, 186, 208, 190, 208, 180, 58, 32]"

definition errDecodePrefix :: string where \<comment> \<open>error decoding the JSON response from Jooble\<close>
  "errDecodePrefix =
     utf8 [208, 190, 209, 136, 208, 184, 208, 177, 208, 186, 208, 176, 32, 208, 180, 208,
           181, 208, 186, 208, 190, 208, 180, 208, 184, 209, 128, 208, 190, 208, 178, 208,
           176, 208, 189, 208, 184, 209, 143, 32, 74, 83, 79, 78, 32, 208, 190, 209, 130,
           208, 178, 208, 181, 209, 130, 208, 176, 32, 208, 190, 209, 130, 32, 74, 111,
           111, 98, 108, 101, 58, 32]"

definition errDecodeInfix :: string where \<comment> \<open>. Response: \<close>
  "errDecodeInfix =
     utf8 [46, 32, 208, 158, 209, 130, 208, 178, 208, 181, 209, 130, 58, 32]"

definition errApiReturnedPrefix :: string where \<comment> \<open>the Jooble API returned an error\<close>
  "errApiReturnedPrefix =
     utf8 [65, 80, 73, 32, 74, 111, 111, 98, 108, 101, 32, 208, 178, 208, 181, 209, 128,
           208, 189, 209, 131, 208, 187, 208, 190, 32, 208, 190, 209, 136, 208, 184, 208,
           177, 208, 186, 209, 131, 58, 32]"

definition errCancelledDuringProcessing :: string where \<comment> \<open>search cancelled by the user while processing the results\<close>
  "errCancelledDuringProcessing =
     utf8 [208, 191, 208, 190, 208, 184, 209, 129, 208, 186, 32, 208, 190, 209, 130, 208,
           188, 208, 181, 208, 189, 208, 181, 208, 189, 32, 208, 191, 208, 190, 208, 187,
           209, 140, 208, 183, 208, 190, 208, 178, 208, 176, 209, 130, 208, 181, 208, 187,
           208, 181, 208, 188, 32, 208, 178, 208, 190, 32, 208, 178, 209, 128, 208, 181,
           208, 188, 209, 143, 32, 208, 190, 208, 177, 209, 128, 208, 176, 208, 177, 208,
           190, 209, 130, 208, 186, 208, 184, 32, 209, 128, 208, 181, 208, 183, 209, 131,
           208, 187, 209, 140, 209, 130, 208, 176, 209, 130, 208, 190, 208, 178]"
text \<open>The verb \<^verbatim>\<open>%d\<close> of \<^verbatim>\<open>fmt\<close>: an integer in decimal digits.\<close>

function formatNat :: "nat \<Rightarrow> string" where
  "formatNat n =
     (if n < 10 then [char_of (48 + n)] else formatNat (n div 10) @ [char_of (48 + n mod 10)])"
  by pat_completeness auto
termination
  by (relation "measure id") auto

definition formatInt :: "int \<Rightarrow> string" where
  "formatInt i = (if i < 0 then CHR ''-'' # formatNat (nat (- i)) else formatNat (nat i))"

record JoobleJob =
  jobTitle :: string
  jobLocation :: string
  jobSnippet :: string
  jobSalary :: string
  jobSource :: string
  jobType :: string
  jobLink :: string
  jobCompany :: string
  jobUpdated :: string
  jobID :: string

record JoobleError =
  Code :: int
  Message :: string

record JoobleResponse =
  TotalCount :: int
  Jobs :: "JoobleJob list"
  Error :: "JoobleError option"

text \<open>
  The cancel channel \<^verbatim>\<open>ch\<close> is only ever closed, never reopened, and the code reads it
  at checkpoints (\<^verbatim>\<open>select\<close> with a \<^verbatim>\<open>default\<close> branch), one after the other. A
  run is therefore described by the number of the first checkpoint that finds the channel
  closed: \<open>Some k\<close> when the checkpoints numbered \<open>k\<close> and later find it closed,
  \<open>None\<close> when it is never closed. Every function below takes the number \<open>t\<close> of the
  next checkpoint and returns the number after its last one.
\<close>

type_synonym cancelChan = "nat option"

definition closedAt :: "cancelChan \<Rightarrow> nat \<Rightarrow> bool" where
  "closedAt ch t = (case ch of None \<Rightarrow> False | Some k \<Rightarrow> k \<le> t)"

text \<open>
  What lies outside main.go answers during one call of \<^verbatim>\<open>searchVacanciesJooble\<close>:
  the error of \<^verbatim>\<open>json.Marshal\<close>, of \<^verbatim>\<open>http.NewRequestWithContext\<close> and of
  \<^verbatim>\<open>client.Do\<close> (\<open>None\<close>: no error), whether \<^verbatim>\<open>ctx.Err()\<close> is
  \<^verbatim>\<open>context.Canceled\<close> when \<^verbatim>\<open>Do\<close> has failed, the error of \<^verbatim>\<open>io.ReadAll\<close>,
  the status code and the body of the response, the result of decoding the body as a
  \<^verbatim>\<open>JoobleResponse\<close> (\<open>Inl\<close>: the error of \<^verbatim>\<open>json.Unmarshal\<close>) and as a
  \<^verbatim>\<open>JoobleError\<close> (\<open>None\<close>: it does not decode). Each answer is read only where the
  code reaches the step.
\<close>

record Exchange =
  marshalErr :: "string option"
  newRequestErr :: "string option"
  doErr :: "string option"
  ctxCanceled :: bool
  readErr :: "string option"
  statusCode :: int
  body :: string
  unmarshalResponse :: "string + JoobleResponse"
  unmarshalError :: "JoobleError option"

definition jobToVacancy :: "JoobleJob \<Rightarrow> Vacancy" where
  "jobToVacancy job =
     \<lparr>Title = jobTitle job, Company = jobCompany job, Description = jobSnippet job,
      Keywords = [], SourceURL = jobLink job, Status = possibleStatuses ! 0,
      ExperienceLevel = possibleExperienceLevels ! 0, Notes = [], ResumePath = [],
      ResumeFileName = []\<rparr>"

text \<open>The loop over \<^verbatim>\<open>joobleResp.Jobs\<close>, with its checkpoint at every job.\<close>

fun mapJobs ::
  "cancelChan \<Rightarrow> nat \<Rightarrow> JoobleJob list \<Rightarrow> Vacancy list \<Rightarrow> (string + Vacancy list) \<times> nat" where
  "mapJobs ch t [] vacancies = (Inr vacancies, t)"
| "mapJobs ch t (job # jobs) vacancies =
     (if closedAt ch t then (Inl errCancelledDuringProcessing, t + 1)
      else if jobTitle job = [] \<or> jobLink job = [] then mapJobs ch (t + 1) jobs vacancies
      else mapJobs ch (t + 1) jobs (vacancies @ [jobToVacancy job]))"

definition searchVacanciesJooble ::
  "cancelChan \<Rightarrow> nat \<Rightarrow> Exchange \<Rightarrow> (string + Vacancy list) \<times> nat" where
  "searchVacanciesJooble ch t ex =
     (case marshalErr ex of
        Some err \<Rightarrow> (Inl (errMarshalPrefix @ err), t)
      | None \<Rightarrow>
     (case newRequestErr ex of
        Some err \<Rightarrow> (Inl (errNewRequestPrefix @ err), t)
      | None \<Rightarrow>
     (case doErr ex of
        Some err \<Rightarrow>
          (if closedAt ch t then (Inl errCancelledUI, t + 1)
           else if ctxCanceled ex then (Inl errCancelledContext, t + 1)
           else (Inl (errDoPrefix @ err), t + 1))
      | None \<Rightarrow>
     (if closedAt ch t then (Inl errCancelledBeforeRead, t + 1)
      else
     (case readErr ex of
        Some err \<Rightarrow> (Inl (errReadPrefix @ err), t + 1)
      | None \<Rightarrow>
     (if closedAt ch (t + 1) then (Inl errCancelledBeforeProcessing, t + 2)
      else if statusCode ex \<noteq> 200 then
        (Inl (errStatusPrefix @ formatInt (statusCode ex) @ ''): '' @ body ex), t + 2)
      else
     (case unmarshalResponse ex of
        Inl err \<Rightarrow>
          (case unmarshalError ex of
             Some joobleErr \<Rightarrow>
               if Message joobleErr \<noteq> [] then
                 (Inl (errApiPrefix @ Message joobleErr @ errCodeInfix @
                       formatInt (Code joobleErr) @ '')''), t + 2)
               else (Inl (errDecodePrefix @ err @ errDecodeInfix @ body ex), t + 2)
           | None \<Rightarrow> (Inl (errDecodePrefix @ err @ errDecodeInfix @ body ex), t + 2))
      | Inr joobleResp \<Rightarrow>
          (case Error joobleResp of
             Some apiErr \<Rightarrow>
               (Inl (errApiReturnedPrefix @ Message apiErr @ errCodeInfix @
                     formatInt (Code apiErr) @ '')''), t + 2)
           | None \<Rightarrow> mapJobs ch (t + 2) (Jobs joobleResp) []))))))))"

text \<open>
  The outcome of one online search as the window shows it: \<open>Cancelled\<close> when the label
  says that the search was cancelled, \<open>Failed\<close> with the text of the error when the
  error box is shown, \<open>Results\<close> with the rows given to the table of online results
  (possibly none: the label then says that there are no new results).
\<close>

datatype SearchOutcome = Cancelled | Failed string | Results "Vacancy list"

fun foundLocally :: "Vacancy \<Rightarrow> Vacancy list \<Rightarrow> bool" where
  "foundLocally onlineV [] = False"
| "foundLocally onlineV (localV # rest) =
     (if EqualFold (Title onlineV) (Title localV) \<and> EqualFold (Company onlineV) (Company localV)
      then True else foundLocally onlineV rest)"

text \<open>
  The loop that drops the online records already in the store, with its checkpoint at
  every record, and the last checkpoint made when nothing is left.
\<close>

fun dedupLoop ::
  "cancelChan \<Rightarrow> nat \<Rightarrow> Vacancy list \<Rightarrow> Vacancy list \<Rightarrow> Vacancy list \<Rightarrow> SearchOutcome \<times> nat" where
  "dedupLoop ch t [] allVacancies filteredOnlineVacancies =
     (if filteredOnlineVacancies = [] then
        (if closedAt ch t then (Cancelled, t + 1) else (Results [], t + 1))
      else (Results filteredOnlineVacancies, t))"
| "dedupLoop ch t (onlineV # rest) allVacancies filteredOnlineVacancies =
     (if closedAt ch t then (Cancelled, t + 1)
      else if \<not> foundLocally onlineV allVacancies then
        dedupLoop ch (t + 1) rest allVacancies (filteredOnlineVacancies @ [onlineV])
      else dedupLoop ch (t + 1) rest allVacancies filteredOnlineVacancies)"

text \<open>
  The function handed to \<^verbatim>\<open>Synchronize\<close> once the call has returned and the
  checkpoint after it has found the channel open.
\<close>

definition deliverResult ::
  "cancelChan \<Rightarrow> nat \<Rightarrow> string + Vacancy list \<Rightarrow> Vacancy list \<Rightarrow> SearchOutcome \<times> nat" where
  "deliverResult ch t res allVacancies =
     (case res of
        Inl err \<Rightarrow> (if Contains err ''context canceled'' then (Cancelled, t) else (Failed err, t))
      | Inr joobleVacancies \<Rightarrow> dedupLoop ch t joobleVacancies allVacancies [])"

text \<open>
  The goroutine of \<^verbatim>\<open>switchToOnlineSearchMode\<close>: the call, the checkpoint after it,
  the delivery. The result is the outcome and the number of checkpoints made.
\<close>

definition backgroundTask :: "cancelChan \<Rightarrow> Exchange \<Rightarrow> Vacancy list \<Rightarrow> SearchOutcome \<times> nat" where
  "backgroundTask ch ex allVacancies =
     (case searchVacanciesJooble ch 0 ex of
        (res, t) \<Rightarrow>
          if closedAt ch t then (Cancelled, t + 1)
          else deliverResult ch (t + 1) res allVacancies)"

text \<open>
  \<^verbatim>\<open>switchToOnlineSearchMode\<close>: an empty search text starts nothing (\<open>None\<close>).
\<close>

definition switchToOnlineSearchMode ::
  "string \<Rightarrow> cancelChan \<Rightarrow> Exchange \<Rightarrow> Vacancy list \<Rightarrow> (SearchOutcome \<times> nat) option" where
  "switchToOnlineSearchMode searchTerm ch ex allVacancies =
     (if searchTerm = [] then None else Some (backgroundTask ch ex allVacancies))"

section \<open>Closing the cancel channel\<close>

text \<open>
  The state of the cancel channel is whether it is closed. \<^verbatim>\<open>close\<close> is Go's: closing
  a closed channel panics (\<open>None\<close>). The handlers of the cancel button and of the back
  button both run \<^verbatim>\<open>select { case <-cancelChan: default: close(cancelChan) }\<close>: they
  read the channel and close it if the read found it open.
\<close>

definition closeChan :: "bool \<Rightarrow> bool option" where
  "closeChan closed = (if closed then None else Some True)"

definition cancelClicked :: "bool \<Rightarrow> bool option" where
  "cancelClicked closed = (if closed then Some closed else closeChan closed)"

definition backToLocalClicked :: "bool \<Rightarrow> bool option" where
  "backToLocalClicked closed = (if closed then Some closed else closeChan closed)"

datatype trigger = CancelButton | BackButton

text \<open>
  Clicks handled one after the other, as the event loop of the window does: each handler
  runs to its end before the next starts; a panic ends the run.
\<close>

fun handleClicks :: "trigger list \<Rightarrow> bool \<Rightarrow> bool option" where
  "handleClicks [] closed = Some closed"
| "handleClicks (CancelButton # rest) closed =
     (case cancelClicked closed of None \<Rightarrow> None | Some closed' \<Rightarrow> handleClicks rest closed')"
| "handleClicks (BackButton # rest) closed =
     (case backToLocalClicked closed of None \<Rightarrow> None | Some closed' \<Rightarrow> handleClicks rest closed')"

text \<open>
  Two callers running the same handler at once: each is before its \<^verbatim>\<open>select\<close>, before
  its \<^verbatim>\<open>close\<close> (the \<^verbatim>\<open>select\<close> found the channel open), or done. A schedule says
  which caller makes the next step (\<open>False\<close> the first, \<open>True\<close> the second).
\<close>

datatype pc = AtSelect | AtClose | Done

fun stepCaller :: "bool \<Rightarrow> pc \<Rightarrow> (bool \<times> pc) option" where
  "stepCaller closed AtSelect = Some (closed, if closed then Done else AtClose)"
| "stepCaller closed AtClose =
     (case closeChan closed of None \<Rightarrow> None | Some closed' \<Rightarrow> Some (closed', Done))"
| "stepCaller closed Done = Some (closed, Done)"

fun interleave :: "bool list \<Rightarrow> bool \<times> pc \<times> pc \<Rightarrow> (bool \<times> pc \<times> pc) option" where
  "interleave [] s = Some s"
| "interleave (second # schedule) (closed, pc1, pc2) =
     (if second then
        (case stepCaller closed pc2 of
           None \<Rightarrow> None
         | Some (closed', pc2') \<Rightarrow> interleave schedule (closed', pc1, pc2'))
      else
        (case stepCaller closed pc1 of
           None \<Rightarrow> None
         | Some (closed', pc1') \<Rightarrow> interleave schedule (closed', pc1', pc2)))"


section \<open>Properties of the string functions and of the keywords\<close>

lemma eq_char_of: "(c = char_of (n::nat)) = (take_bit 8 n = (of_char c :: nat))"
  using char_of_eq_iff [of n c] by (simp only: eq_commute [of c])

lemma hasPrefix_iff: "hasPrefix s p \<longleftrightarrow> (\<exists>r. s = p @ r)"
  by (induction s p rule: hasPrefix.induct) auto

lemma spaceEncodings_eval:
  "spaceEncodings =
     [utf8 [9], utf8 [10], utf8 [11], utf8 [12], utf8 [13], utf8 [32], utf8 [194, 133],
      utf8 [194, 160], utf8 [225, 154, 128], utf8 [226, 128, 128], utf8 [226, 128, 129],
      utf8 [226, 128, 130], utf8 [226, 128, 131], utf8 [226, 128, 132], utf8 [226, 128, 133],
      utf8 [226, 128, 134], utf8 [226, 128, 135], utf8 [226, 128, 136], utf8 [226, 128, 137],
      utf8 [226, 128, 138], utf8 [226, 128, 168], utf8 [226, 128, 169], utf8 [226, 128, 175],
      utf8 [226, 129, 159], utf8 [227, 128, 128]]"
  by (simp add: spaceEncodings_def spaceRunes_def encodeRune_def)

lemma spaceEncodings_nonempty: "[] \<notin> set spaceEncodings"
  by (simp add: spaceEncodings_eval utf8_def)

lemma space_in_spaceEncodings: "[CHR '' ''] \<in> set spaceEncodings"
  by (simp add: spaceEncodings_eval utf8_def eq_char_of)

lemma stripOne_None:
  "stripOne es s = None \<longleftrightarrow> (\<forall>e \<in> set es. e = [] \<or> \<not> hasPrefix s e)"
  by (induction es) auto

lemma stripOne_Some:
  "stripOne es s = Some s' \<Longrightarrow> \<exists>e \<in> set es. e \<noteq> [] \<and> s = e @ s'"
proof (induction es)
  case Nil
  then show ?case by simp
next
  case (Cons e es)
  show ?case
  proof (cases "e \<noteq> [] \<and> hasPrefix s e")
    case True
    then obtain r where "s = e @ r" by (auto simp: hasPrefix_iff)
    with True Cons.prems show ?thesis by auto
  next
    case False
    with Cons show ?thesis by auto
  qed
qed

lemma stripLeading_no_prefix:
  "\<forall>e \<in> set es. e = [] \<or> \<not> hasPrefix (stripLeading es s) e"
proof (induction es s rule: stripLeading.induct)
  case (1 es s)
  show ?case
  proof (cases "stripOne es s")
    case None
    then have "stripLeading es s = s" by (simp add: stripLeading.simps)
    with None show ?thesis by (simp add: stripOne_None)
  next
    case (Some s')
    then have "stripLeading es s = stripLeading es s'" by (simp add: stripLeading.simps)
    with "1.IH" [OF Some] show ?thesis by simp
  qed
qed

lemma stripLeading_suffix: "\<exists>p. s = p @ stripLeading es s"
proof (induction es s rule: stripLeading.induct)
  case (1 es s)
  show ?case
  proof (cases "stripOne es s")
    case None
    then have "stripLeading es s = s" by (simp add: stripLeading.simps)
    then show ?thesis by simp
  next
    case (Some s')
    then have eq: "stripLeading es s = stripLeading es s'" by (simp add: stripLeading.simps)
    from stripOne_Some [OF Some] obtain e where "s = e @ s'" by blast
    moreover from "1.IH" [OF Some] obtain p where "s' = p @ stripLeading es s'" by blast
    ultimately have "s = (e @ p) @ stripLeading es s'" by simp
    with eq show ?thesis by metis
  qed
qed

lemma stripLeading_all_one:
  "[c] \<in> set es \<Longrightarrow> \<forall>x \<in> set s. x = c \<Longrightarrow> stripLeading es s = []"
proof (induction es s rule: stripLeading.induct)
  case (1 es s)
  show ?case
  proof (cases "stripOne es s")
    case None
    then have eq: "stripLeading es s = s" by (simp add: stripLeading.simps)
    have "s = []"
    proof (cases s)
      case Nil
      then show ?thesis .
    next
      case (Cons x xs)
      with "1.prems"(2) have "hasPrefix s [c]" by simp
      moreover from None have "\<forall>e \<in> set es. e = [] \<or> \<not> hasPrefix s e"
        by (simp only: stripOne_None)
      then have "[c] = [] \<or> \<not> hasPrefix s [c]" using "1.prems"(1) by (rule bspec)
      then have "\<not> hasPrefix s [c]" by simp
      ultimately show ?thesis by simp
    qed
    with eq show ?thesis by simp
  next
    case (Some s')
    then have eq: "stripLeading es s = stripLeading es s'" by (simp add: stripLeading.simps)
    from stripOne_Some [OF Some] obtain e where "s = e @ s'" by blast
    with "1.prems"(2) have "\<forall>x \<in> set s'. x = c" by simp
    with "1.IH" [OF Some "1.prems"(1)] eq show ?thesis by simp
  qed
qed

lemma stripLeading_Nil: "stripLeading es [] = []"
proof -
  have "stripOne es [] = None" by (induction es) (auto simp: hasPrefix_iff)
  then show ?thesis by (simp add: stripLeading.simps)
qed

lemma TrimSpace_ends:
  assumes "e \<in> set spaceEncodings"
  shows "\<not> hasPrefix (TrimSpace s) e" and "\<not> hasSuffix (TrimSpace s) e"
proof -
  let ?u = "stripLeading spaceEncodings s"
  let ?w = "stripLeading (map rev spaceEncodings) (rev ?u)"
  from assms have ne: "e \<noteq> []" using spaceEncodings_nonempty by metis
  have t: "TrimSpace s = rev ?w" by (simp add: TrimSpace_def)
  from assms have "rev e \<in> set (map rev spaceEncodings)" by simp
  with stripLeading_no_prefix [of "map rev spaceEncodings" "rev ?u"] ne
  have "\<not> hasPrefix ?w (rev e)" by fastforce
  then show "\<not> hasSuffix (TrimSpace s) e" by (simp add: hasSuffix_def t)
  show "\<not> hasPrefix (TrimSpace s) e"
  proof
    assume "hasPrefix (TrimSpace s) e"
    then obtain r where r: "rev ?w = e @ r" by (auto simp: hasPrefix_iff t)
    obtain p where "rev ?u = p @ ?w" using stripLeading_suffix by blast
    then have "rev (rev ?u) = rev (p @ ?w)" by simp
    then have "?u = rev ?w @ rev p" by simp
    with r have "?u = e @ (r @ rev p)" by simp
    then have "hasPrefix ?u e" unfolding hasPrefix_iff by blast
    with stripLeading_no_prefix [of spaceEncodings s] assms ne show False by blast
  qed
qed

lemma TrimSpace_all_space:
  assumes "\<forall>c \<in> set s. c = CHR '' ''"
  shows "TrimSpace s = []"
proof -
  from assms have "stripLeading spaceEncodings s = []"
    using space_in_spaceEncodings by (rule stripLeading_all_one [rotated])
  then show ?thesis by (simp add: TrimSpace_def stripLeading_Nil)
qed

lemma keywordsLoop_eq:
  "keywordsLoop acc ps = acc @ filter (\<lambda>k. k \<noteq> []) (map TrimSpace ps)"
  by (induction ps arbitrary: acc) (simp_all add: Let_def)

lemma Split_pieces: "\<forall>p \<in> set (Split s sep). set p \<subseteq> set s - {sep}"
proof (induction s)
  case Nil
  show ?case by simp
next
  case (Cons c cs)
  show ?case
  proof (cases "Split cs sep")
    case Nil
    then show ?thesis by auto
  next
    case (Cons q qs)
    with Cons.IH have q: "set q \<subseteq> set cs - {sep}" and qs: "\<forall>p \<in> set qs. set p \<subseteq> set cs - {sep}"
      by simp_all
    show ?thesis
    proof (cases "c = sep")
      case True
      with Cons.IH show ?thesis by auto
    next
      case False
      with Cons q qs show ?thesis by auto
    qed
  qed
qed

lemma parseKeywords_ok:
  assumes "kw \<in> set (parseKeywords s)"
  shows "kw \<noteq> [] \<and> (\<forall>e \<in> set spaceEncodings. \<not> hasPrefix kw e \<and> \<not> hasSuffix kw e)"
proof -
  from assms have "kw \<in> set (filter (\<lambda>k. k \<noteq> []) (map TrimSpace (Split s (CHR '',''))))"
    by (simp add: parseKeywords_def keywordsLoop_eq split: if_splits)
  then obtain p where "kw = TrimSpace p" and "kw \<noteq> []"
    by auto
  then show ?thesis using TrimSpace_ends [of _ p] by simp
qed

lemma only_spaces:
  assumes "set p \<subseteq> set s - {sep}" and "\<forall>c \<in> set s. c = sep \<or> P c"
  shows "\<forall>c \<in> set p. P c"
  using assms by blast

lemma parseKeywords_commas_spaces:
  assumes "\<forall>c \<in> set s. c = CHR '','' \<or> c = CHR '' ''"
  shows "parseKeywords s = []"
proof -
  have "TrimSpace p = []" if "p \<in> set (Split s (CHR '',''))" for p
  proof -
    from that have "set p \<subseteq> set s - {CHR '',''}"
      by (rule Split_pieces [rule_format])
    then have "\<forall>c \<in> set p. c = CHR '' ''" using assms by (rule only_spaces)
    then show ?thesis by (rule TrimSpace_all_space)
  qed
  then have "filter (\<lambda>k. k \<noteq> []) (map TrimSpace (Split s (CHR '',''))) = []"
    by (simp only: filter_empty_conv set_map) blast
  then show ?thesis by (simp only: parseKeywords_def keywordsLoop_eq append_Nil if_cancel)
qed


lemma parseKeywords_example:
  "parseKeywords (utf8 [194, 160, 103, 111, 194, 160, 44, 32, 114, 117, 115, 116, 44, 226, 128,
      131, 44, 59]) = [''go'', ''rust'', '';'']"
  by (simp add: parseKeywords_def TrimSpace_def spaceEncodings_eval stripLeading.simps utf8_def
        char_of_eq_iff eq_char_of)

section \<open>Properties of the store operations\<close>

lemma equalStringSlices_iff: "equalStringSlices a b = (a = b)"
  by (induction a b rule: equalStringSlices.induct) auto

lemma applyStatus_key [simp]:
  "Title (fst (applyStatus x s)) = Title (fst s)" "Company (fst (applyStatus x s)) = Company (fst s)"
  "Keywords (fst (applyStatus x s)) = Keywords (fst s)"
  by (cases x; cases s; simp)+

lemma applyExperience_key [simp]:
  "Title (fst (applyExperience x s)) = Title (fst s)"
  "Company (fst (applyExperience x s)) = Company (fst s)"
  "Keywords (fst (applyExperience x s)) = Keywords (fst s)"
  by (cases x; cases s; simp)+

lemma applyKeywords_key [simp]:
  "Title (fst (applyKeywords x s)) = Title (fst s)"
  "Company (fst (applyKeywords x s)) = Company (fst s)"
  by (cases x; cases s; simp add: Let_def)+

lemma applyKeywords_Some [simp]:
  "Keywords (fst (applyKeywords (Some txt) s)) = parseKeywords txt"
  by (cases s) (simp add: Let_def equalStringSlices_iff)

lemma applySourceURL_key [simp]:
  "Title (fst (applySourceURL x s)) = Title (fst s)"
  "Company (fst (applySourceURL x s)) = Company (fst s)"
  "Keywords (fst (applySourceURL x s)) = Keywords (fst s)"
  by (cases x; cases s; simp)+

lemma applyDescription_key [simp]:
  "Title (fst (applyDescription x s)) = Title (fst s)"
  "Company (fst (applyDescription x s)) = Company (fst s)"
  "Keywords (fst (applyDescription x s)) = Keywords (fst s)"
  by (cases x; cases s; simp)+

lemma applyNotes_key [simp]:
  "Title (fst (applyNotes x s)) = Title (fst s)"
  "Company (fst (applyNotes x s)) = Company (fst s)"
  "Keywords (fst (applyNotes x s)) = Keywords (fst s)"
  by (cases x; cases s; simp)+

lemma detailsUpdate_identity:
  "Title (fst (detailsUpdate app v)) = Title v" "Company (fst (detailsUpdate app v)) = Company v"
  by (simp_all add: detailsUpdate_def)

lemma detailsUpdate_keywords:
  "detailKeywordsLE app = Some txt \<Longrightarrow> Keywords (fst (detailsUpdate app v)) = parseKeywords txt"
  by (simp add: detailsUpdate_def)

lemma findExact_Some:
  "findExact vs t c = Some i \<Longrightarrow> i < length vs \<and> Title (vs ! i) = t \<and> Company (vs ! i) = c"
  by (induction vs arbitrary: i) (auto split: if_splits)

lemma find_Some:
  "findVacancyIndexInAllExt vs t c = Some i \<Longrightarrow>
     i < length vs \<and> EqualFold (Title (vs ! i)) t \<and> EqualFold (Company (vs ! i)) c"
  by (induction vs arbitrary: i) (auto split: if_splits)

lemma find_None:
  "findVacancyIndexInAllExt vs t c = None \<longleftrightarrow>
     (foldKeys t, foldKeys c) \<notin> set (map identityKey vs)"
  by (induction vs) (auto simp: identityKey_def EqualFold_def)

lemma saveVacancyDetails_store:
  "saveVacancyDetails items idx app all = (r, all') \<Longrightarrow>
     all' = all \<or> (\<exists>i < length all. all' = all[i := fst (detailsUpdate app (all ! i))])"
  by (auto simp: saveVacancyDetails_def split: if_splits option.splits prod.splits dest: findExact_Some)

lemma saveVacancyDetails_Saved:
  "saveVacancyDetails items idx app all = (Saved, all') \<Longrightarrow>
     \<exists>i < length all. all' = all[i := fst (detailsUpdate app (all ! i))]"
  by (auto simp: saveVacancyDetails_def split: if_splits option.splits prod.splits dest: findExact_Some)

lemma acceptClicked_Accepted:
  "acceptClicked isEdit isOnline cur dlg all = (Accepted, all') \<Longrightarrow> savedVacancyOf dlg \<in> set all'"
  by (auto simp: acceptClicked_def Let_def set_update_memI split: if_splits option.splits dest!: find_Some)

text \<open>
  C10. The keywords stored by the dialog (add and edit) and by the save of the details
  panel are those of \<open>parseKeywords\<close> on the text entered: the dialog puts the record
  built from its controls into the store, the details panel replaces one record of the
  store by its update, whose keywords are the parsed text. Every parsed keyword is
  non-empty and neither starts nor ends with white space (with the encoding of a rune
  that \<^verbatim>\<open>unicode.IsSpace\<close> accepts), and a text of commas and spaces only gives
  no keyword at all.
\<close>

theorem stored_keywords_trimmed:
  "(acceptClicked isEdit isOnlineSearch currentVacancy dlg allVacancies = (Accepted, stored) \<longrightarrow>
      savedVacancyOf dlg \<in> set stored \<and>
      Keywords (savedVacancyOf dlg) = parseKeywords (keywordsLE dlg))
   \<and> (saveVacancyDetails items idx app vs = (Saved, stored') \<and>
       detailKeywordsLE app = Some txt \<longrightarrow>
      (\<exists>i < length vs.
         stored' = vs[i := fst (detailsUpdate app (vs ! i))] \<and>
         Keywords (stored' ! i) = parseKeywords txt))
   \<and> (\<forall>kw \<in> set (parseKeywords s).
        kw \<noteq> [] \<and> (\<forall>e \<in> set spaceEncodings. \<not> hasPrefix kw e \<and> \<not> hasSuffix kw e))
   \<and> ((\<forall>c \<in> set s'. c = CHR '','' \<or> c = CHR '' '') \<longrightarrow> parseKeywords s' = [])"
proof (intro conjI impI)
  assume "acceptClicked isEdit isOnlineSearch currentVacancy dlg allVacancies = (Accepted, stored)"
  then show "savedVacancyOf dlg \<in> set stored" by (rule acceptClicked_Accepted)
next
  show "Keywords (savedVacancyOf dlg) = parseKeywords (keywordsLE dlg)"
    by (simp add: savedVacancyOf_def)
next
  assume a: "saveVacancyDetails items idx app vs = (Saved, stored') \<and>
       detailKeywordsLE app = Some txt"
  then obtain i where i: "i < length vs"
      and st: "stored' = vs[i := fst (detailsUpdate app (vs ! i))]"
    using saveVacancyDetails_Saved by blast
  from a have "Keywords (fst (detailsUpdate app (vs ! i))) = parseKeywords txt"
    by (simp add: detailsUpdate_keywords)
  with i st have "Keywords (stored' ! i) = parseKeywords txt" by simp
  with i st show "\<exists>i < length vs.
         stored' = vs[i := fst (detailsUpdate app (vs ! i))] \<and>
         Keywords (stored' ! i) = parseKeywords txt" by blast
next
  show "\<forall>kw \<in> set (parseKeywords s).
        kw \<noteq> [] \<and> (\<forall>e \<in> set spaceEncodings. \<not> hasPrefix kw e \<and> \<not> hasSuffix kw e)"
    using parseKeywords_ok by blast
next
  assume "\<forall>c \<in> set s'. c = CHR '','' \<or> c = CHR '' ''"
  then show "parseKeywords s' = []" by (rule parseKeywords_commas_spaces)
qed

theorem stored_keywords_trimmed_witness:
  "acceptClicked False False emptyVacancy
      \<lparr>titleLE = ''Go Dev'', companyLE = ''Acme'', descriptionTE = [],
       keywordsLE = utf8 [194, 160, 103, 111, 194, 160, 44, 32, 114, 117, 115, 116, 44, 226, 128, 131, 44, 59],
       sourceURLLE = [], statusCB = ''New'', experienceCB = ''None'', notesTE = []\<rparr> []
     = (Accepted, [emptyVacancy\<lparr>Title := ''Go Dev'', Company := ''Acme'',
          Keywords := [''go'', ''rust'', '';''], Status := ''New'', ExperienceLevel := ''None''\<rparr>])
   \<and> saveVacancyDetails [emptyVacancy\<lparr>Title := ''QA''\<rparr>] 0
        \<lparr>detailStatusCB = None, detailExperienceCB = None,
         detailKeywordsLE = Some (utf8 [194, 160, 103, 111, 194, 160, 44, 32, 114, 117, 115, 116, 44, 226, 128, 131, 44, 59]),
         detailSourceURLLE = None, detailDescriptionTE = None, detailNotesTE = None\<rparr>
        [emptyVacancy\<lparr>Title := ''QA''\<rparr>]
     = (Saved, [emptyVacancy\<lparr>Title := ''QA'', Keywords := [''go'', ''rust'', '';'']\<rparr>])
   \<and> parseKeywords (utf8 [194, 160, 103, 111, 194, 160, 44, 32, 114, 117, 115, 116, 44, 226, 128, 131, 44, 59]) = [''go'', ''rust'', '';'']
   \<and> parseKeywords '', ,'' = []"
proof -
  have kw: "parseKeywords (utf8 [194, 160, 103, 111, 194, 160, 44, 32, 114, 117, 115, 116, 44, 226, 128, 131, 44, 59]) = [''go'', ''rust'', '';'']"
    by (rule parseKeywords_example)
  have t1: "TrimSpace ''Go Dev'' = ''Go Dev''" and t2: "TrimSpace ''Acme'' = ''Acme''"
    and t3: "TrimSpace [] = []"
    by (simp_all add: TrimSpace_def spaceEncodings_eval stripLeading.simps utf8_def eq_char_of)
  have e: "parseKeywords '', ,'' = []"
    by (rule parseKeywords_commas_spaces) simp
  have a: "acceptClicked False False emptyVacancy
      \<lparr>titleLE = ''Go Dev'', companyLE = ''Acme'', descriptionTE = [],
       keywordsLE = utf8 [194, 160, 103, 111, 194, 160, 44, 32, 114, 117, 115, 116, 44, 226, 128, 131, 44, 59],
       sourceURLLE = [], statusCB = ''New'', experienceCB = ''None'', notesTE = []\<rparr> []
     = (Accepted, [emptyVacancy\<lparr>Title := ''Go Dev'', Company := ''Acme'',
          Keywords := [''go'', ''rust'', '';''], Status := ''New'', ExperienceLevel := ''None''\<rparr>])"
    by (simp add: acceptClicked_def savedVacancyOf_def kw t1 t2 t3 emptyVacancy_def)
  have d: "saveVacancyDetails [emptyVacancy\<lparr>Title := ''QA''\<rparr>] 0
        \<lparr>detailStatusCB = None, detailExperienceCB = None,
         detailKeywordsLE = Some (utf8 [194, 160, 103, 111, 194, 160, 44, 32, 114, 117, 115, 116, 44, 226, 128, 131, 44, 59]),
         detailSourceURLLE = None, detailDescriptionTE = None, detailNotesTE = None\<rparr>
        [emptyVacancy\<lparr>Title := ''QA''\<rparr>]
     = (Saved, [emptyVacancy\<lparr>Title := ''QA'', Keywords := [''go'', ''rust'', '';'']\<rparr>])"
    by (simp add: saveVacancyDetails_def detailsUpdate_def kw emptyVacancy_def)
  from stored_keywords_trimmed [of False False emptyVacancy
      "\<lparr>titleLE = ''Go Dev'', companyLE = ''Acme'', descriptionTE = [],
       keywordsLE = utf8 [194, 160, 103, 111, 194, 160, 44, 32, 114, 117, 115, 116, 44, 226, 128, 131, 44, 59],
       sourceURLLE = [], statusCB = ''New'', experienceCB = ''None'', notesTE = []\<rparr>" "[]"
      "[emptyVacancy\<lparr>Title := ''Go Dev'', Company := ''Acme'',
          Keywords := [''go'', ''rust'', '';''], Status := ''New'', ExperienceLevel := ''None''\<rparr>]"
      "[emptyVacancy\<lparr>Title := ''QA''\<rparr>]" 0
      "\<lparr>detailStatusCB = None, detailExperienceCB = None,
         detailKeywordsLE = Some (utf8 [194, 160, 103, 111, 194, 160, 44, 32, 114, 117, 115, 116, 44, 226, 128, 131, 44, 59]),
         detailSourceURLLE = None, detailDescriptionTE = None, detailNotesTE = None\<rparr>"
      "[emptyVacancy\<lparr>Title := ''QA''\<rparr>]"
      "[emptyVacancy\<lparr>Title := ''QA'', Keywords := [''go'', ''rust'', '';'']\<rparr>]"
      "utf8 [194, 160, 103, 111, 194, 160, 44, 32, 114, 117, 115, 116, 44, 226, 128, 131, 44, 59]" "utf8 [194, 160, 103, 111, 194, 160, 44, 32, 114, 117, 115, 116, 44, 226, 128, 131, 44, 59]" "'', ,''"] a d kw e
  show ?thesis by simp
qed

lemma identityKey_eq_iff:
  "identityKey a = identityKey b \<longleftrightarrow>
     EqualFold (Title a) (Title b) \<and> EqualFold (Company a) (Company b)"
  by (simp add: identityKey_def EqualFold_def)

lemma uniqueIdentities_pairwise:
  "uniqueIdentities vs \<longleftrightarrow>
     (\<forall>i < length vs. \<forall>j < length vs. i \<noteq> j \<longrightarrow>
        \<not> (EqualFold (Title (vs ! i)) (Title (vs ! j)) \<and>
           EqualFold (Company (vs ! i)) (Company (vs ! j))))"
  unfolding uniqueIdentities_def distinct_conv_nth
  by (simp add: identityKey_eq_iff)

lemma add_keeps_unique:
  assumes "uniqueIdentities allVacancies"
  shows "uniqueIdentities (snd (acceptClicked False isOnlineSearch currentVacancy dlg allVacancies))"
proof -
  have "uniqueIdentities (allVacancies @ [savedVacancyOf dlg])"
    if "findVacancyIndexInAllExt allVacancies (Title (savedVacancyOf dlg))
          (Company (savedVacancyOf dlg)) = None"
  proof -
    from that have "identityKey (savedVacancyOf dlg) \<notin> set (map identityKey allVacancies)"
      by (simp add: find_None identityKey_def)
    with assms show ?thesis by (simp add: uniqueIdentities_def)
  qed
  with assms show ?thesis
    by (simp add: acceptClicked_def Let_def)
qed

lemma delete_keeps_unique:
  assumes "uniqueIdentities allVacancies"
  shows "uniqueIdentities (confirmDeleteVacancy items idx confirmed allVacancies)"
proof -
  have "distinct (map identityKey (take i allVacancies @ drop (Suc i) allVacancies))" for i
  proof -
    let ?ks = "map identityKey allVacancies"
    from assms have d: "distinct (take i ?ks @ drop i ?ks)"
      by (simp add: uniqueIdentities_def)
    then have "set (take i ?ks) \<inter> set (drop i ?ks) = {}"
      by (simp only: distinct_append)
    moreover have "set (drop (Suc i) ?ks) \<subseteq> set (drop i ?ks)"
      by (rule set_drop_subset_set_drop) simp
    ultimately have "set (take i ?ks) \<inter> set (drop (Suc i) ?ks) = {}" by blast
    moreover from assms have "distinct (take i ?ks)" "distinct (drop (Suc i) ?ks)"
      by (simp_all add: uniqueIdentities_def)
    ultimately have "distinct (take i ?ks @ drop (Suc i) ?ks)"
      by (simp only: distinct_append simp_thms)
    then show ?thesis by (simp add: take_map drop_map)
  qed
  with assms show ?thesis
    by (simp add: confirmDeleteVacancy_def uniqueIdentities_def split: option.splits)
qed

lemma details_keeps_unique:
  assumes "uniqueIdentities allVacancies"
  shows "uniqueIdentities (snd (saveVacancyDetails items idx app allVacancies))"
proof -
  obtain r st where rs: "saveVacancyDetails items idx app allVacancies = (r, st)"
    by (cases "saveVacancyDetails items idx app allVacancies")
  from saveVacancyDetails_store [OF rs] show ?thesis
  proof
    assume "st = allVacancies"
    with rs assms show ?thesis by simp
  next
    assume "\<exists>i < length allVacancies.
      st = allVacancies[i := fst (detailsUpdate app (allVacancies ! i))]"
    then obtain i where i: "i < length allVacancies"
      and st: "st = allVacancies[i := fst (detailsUpdate app (allVacancies ! i))]" by blast
    have "identityKey (fst (detailsUpdate app (allVacancies ! i))) = identityKey (allVacancies ! i)"
      by (simp add: identityKey_def detailsUpdate_identity)
    with i have "map identityKey st = map identityKey allVacancies"
      unfolding st by (simp add: map_update list_update_same_conv)
    with rs assms show ?thesis by (simp add: uniqueIdentities_def)
  qed
qed



section \<open>Properties of filtering and sorting\<close>

lemma field_neq:
  "fieldStatus \<noteq> fieldTitle" "fieldStatus \<noteq> fieldCompany" "fieldStatus \<noteq> fieldDescription"
  "fieldStatus \<noteq> fieldKeywords" "fieldStatus \<noteq> fieldExperience" "fieldStatus \<noteq> fieldEverywhere"
  "fieldExperience \<noteq> fieldTitle" "fieldExperience \<noteq> fieldCompany"
  "fieldExperience \<noteq> fieldDescription" "fieldExperience \<noteq> fieldKeywords"
  "fieldExperience \<noteq> fieldEverywhere"
  by (simp_all add: fieldStatus_def fieldTitle_def fieldCompany_def fieldDescription_def
        fieldKeywords_def fieldExperience_def fieldEverywhere_def utf8_def)

lemma ToLower_Nil: "ToLower [] = []"
  by (simp add: ToLower_def bytesOf_def utf8_def)

lemma EqualFold_stable:
  "foldKeys (ToLower s) = foldKeys s \<Longrightarrow> EqualFold f (ToLower s) = EqualFold f s"
  by (simp add: EqualFold_def)

text \<open>
  Lowering an enumerated value does not change the runes that \<^verbatim>\<open>EqualFold\<close>
  compares.
\<close>

lemma possibleStatuses_stable:
  "S \<in> set possibleStatuses \<Longrightarrow> foldKeys (ToLower S) = foldKeys S"
  by (auto simp add: possibleStatuses_def foldKeys_def ToLower_def bytesOf_def utf8_def
        isCont_def unicodeToLower_def lowerRanges_def encodeRune_def foldRune_def foldRanges_def)

lemma possibleExperienceLevels_stable:
  "E \<in> set possibleExperienceLevels \<Longrightarrow> foldKeys (ToLower E) = foldKeys E"
  by (auto simp add: possibleExperienceLevels_def foldKeys_def ToLower_def bytesOf_def utf8_def
        isCont_def unicodeToLower_def lowerRanges_def encodeRune_def foldRune_def foldRanges_def)

text \<open>
  The hypothesis is not redundant: U+0130 (capital I with a dot above) is lowered to
  \<open>i\<close>, which \<^verbatim>\<open>EqualFold\<close> does not take for U+0130.
\<close>

lemma lowered_dotted_I:
  "ToLower (utf8 [196, 176]) = ''i'' \<and> \<not> EqualFold (utf8 [196, 176]) ''i''
   \<and> EqualFold (utf8 [196, 176]) (utf8 [196, 176])"
  by (simp add: EqualFold_def foldKeys_def ToLower_def bytesOf_def utf8_def
        isCont_def unicodeToLower_def lowerRanges_def encodeRune_def foldRune_def foldRanges_def
        char_of_eq_iff)

lemma filterLoop_eq:
  "filterLoop f t vs filtered = filtered @ filter (found f t) vs"
  by (induction vs arbitrary: filtered) simp_all

lemma searchInFieldOf_nth:
  "searchInFieldOf \<lparr>searchFieldCB = 5, statusFilterCB = s, experienceFilterCB = e, searchEdit = q\<rparr>
     = fieldStatus"
  "searchInFieldOf \<lparr>searchFieldCB = 6, statusFilterCB = s, experienceFilterCB = e, searchEdit = q\<rparr>
     = fieldExperience"
  by (simp_all add: searchInFieldOf_def searchFields_def)

lemma found_status: "found fieldStatus t = (\<lambda>v. EqualFold (Status v) t)"
  by (rule ext) (simp add: found_def matchField_def field_neq)

lemma found_experience:
  "found fieldExperience t = (\<lambda>v. EqualFold (ExperienceLevel v) t)"
  by (rule ext) (simp add: found_def matchField_def field_neq field_neq [symmetric])

lemma filterVacancies_status:
  "filterVacancies
      \<lparr>searchFieldCB = 5, statusFilterCB = S, experienceFilterCB = e, searchEdit = q\<rparr> snapshot
     = filter (\<lambda>v. EqualFold (Status v) (ToLower S)) snapshot"
  by (simp add: filterVacancies_def searchTermOf_def searchInFieldOf_nth filterLoop_eq
        found_status)

lemma filterVacancies_experience:
  "filterVacancies
      \<lparr>searchFieldCB = 6, statusFilterCB = s, experienceFilterCB = E, searchEdit = q\<rparr> snapshot
     = filter (\<lambda>v. EqualFold (ExperienceLevel v) (ToLower E)) snapshot"
  by (simp add: filterVacancies_def searchTermOf_def searchInFieldOf_nth filterLoop_eq
        found_experience field_neq field_neq [symmetric])

lemma mset_insertLeft: "mset (insertLeft lessFn x ys) = add_mset x (mset ys)"
  by (induction ys) simp_all

lemma mset_foldl_insertLeft:
  "mset (foldl (\<lambda>sorted x. insertLeft lessFn x sorted) acc xs) = mset acc + mset xs"
  by (induction xs arbitrary: acc) (simp_all add: mset_insertLeft)

lemma mset_SliceStable: "mset (SliceStable lessFn xs) = mset xs"
  by (simp add: SliceStable_def mset_foldl_insertLeft)

text \<open>
  C5. The status and experience filters are combo boxes over \<^verbatim>\<open>possibleStatuses\<close>
  and \<^verbatim>\<open>possibleExperienceLevels\<close>, so the query value is one of the enumerated
  values. With the selector on status (index 5) and such a value \<open>S\<close>, the rows that
  \<^verbatim>\<open>performSearch\<close> keeps are exactly the records whose status equals \<open>S\<close> under
  \<^verbatim>\<open>strings.EqualFold\<close> (Unicode case folding, so the Cyrillic letters of the
  values too), in the order of the snapshot, the first value of the enumeration
  included; with the selector on experience (index 6) the same holds of the experience
  level. Whatever the text of the filter, the comparison is \<^verbatim>\<open>EqualFold\<close> against
  the lowered text: no substring matching takes part and the search box is not read.
  The table then shows these rows sorted, that is, the same records.
\<close>

theorem status_filter_exact:
  "(S \<in> set possibleStatuses \<longrightarrow>
      filterVacancies
        \<lparr>searchFieldCB = 5, statusFilterCB = S, experienceFilterCB = e, searchEdit = q\<rparr> snapshot
      = filter (\<lambda>v. EqualFold (Status v) S) snapshot
    \<and> mset (performSearch
        \<lparr>searchFieldCB = 5, statusFilterCB = S, experienceFilterCB = e, searchEdit = q\<rparr>
        sortColumn sortOrder snapshot)
      = mset (filter (\<lambda>v. EqualFold (Status v) S) snapshot))
   \<and> (E \<in> set possibleExperienceLevels \<longrightarrow>
      filterVacancies
        \<lparr>searchFieldCB = 6, statusFilterCB = s, experienceFilterCB = E, searchEdit = q\<rparr> snapshot
      = filter (\<lambda>v. EqualFold (ExperienceLevel v) E) snapshot
    \<and> mset (performSearch
        \<lparr>searchFieldCB = 6, statusFilterCB = s, experienceFilterCB = E, searchEdit = q\<rparr>
        sortColumn sortOrder snapshot)
      = mset (filter (\<lambda>v. EqualFold (ExperienceLevel v) E) snapshot))
   \<and> filterVacancies
        \<lparr>searchFieldCB = 5, statusFilterCB = S', experienceFilterCB = e, searchEdit = q\<rparr> snapshot
      = filter (\<lambda>v. EqualFold (Status v) (ToLower S')) snapshot
   \<and> filterVacancies
        \<lparr>searchFieldCB = 6, statusFilterCB = s, experienceFilterCB = E', searchEdit = q\<rparr> snapshot
      = filter (\<lambda>v. EqualFold (ExperienceLevel v) (ToLower E')) snapshot"
proof (intro conjI impI)
  assume S: "S \<in> set possibleStatuses"
  show 1: "filterVacancies
      \<lparr>searchFieldCB = 5, statusFilterCB = S, experienceFilterCB = e, searchEdit = q\<rparr> snapshot
     = filter (\<lambda>v. EqualFold (Status v) S) snapshot"
    by (simp only: filterVacancies_status EqualFold_stable [OF possibleStatuses_stable [OF S]])
  show "mset (performSearch
        \<lparr>searchFieldCB = 5, statusFilterCB = S, experienceFilterCB = e, searchEdit = q\<rparr>
        sortColumn sortOrder snapshot)
      = mset (filter (\<lambda>v. EqualFold (Status v) S) snapshot)"
    by (simp only: 1 performSearch_def Sort_def mset_SliceStable)
next
  assume E: "E \<in> set possibleExperienceLevels"
  show 2: "filterVacancies
      \<lparr>searchFieldCB = 6, statusFilterCB = s, experienceFilterCB = E, searchEdit = q\<rparr> snapshot
     = filter (\<lambda>v. EqualFold (ExperienceLevel v) E) snapshot"
    by (simp only: filterVacancies_experience
          EqualFold_stable [OF possibleExperienceLevels_stable [OF E]])
  show "mset (performSearch
        \<lparr>searchFieldCB = 6, statusFilterCB = s, experienceFilterCB = E, searchEdit = q\<rparr>
        sortColumn sortOrder snapshot)
      = mset (filter (\<lambda>v. EqualFold (ExperienceLevel v) E) snapshot)"
    by (simp only: 2 performSearch_def Sort_def mset_SliceStable)
next
  show "filterVacancies
        \<lparr>searchFieldCB = 5, statusFilterCB = S', experienceFilterCB = e, searchEdit = q\<rparr> snapshot
      = filter (\<lambda>v. EqualFold (Status v) (ToLower S')) snapshot"
    by (rule filterVacancies_status)
next
  show "filterVacancies
        \<lparr>searchFieldCB = 6, statusFilterCB = s, experienceFilterCB = E', searchEdit = q\<rparr> snapshot
      = filter (\<lambda>v. EqualFold (ExperienceLevel v) (ToLower E')) snapshot"
    by (rule filterVacancies_experience)
qed

text \<open>
  The filter on the first status, \<open>U+041D U+043E U+0432 U+0430 U+044F\<close>, keeps the row
  with this status and the row with the same word in capitals, and drops the row of
  another status, although the search box holds a text that no row contains.
\<close>

theorem status_filter_exact_witness:
  "utf8 [208, 157, 208, 190, 208, 178, 208, 176, 209, 143] \<in> set possibleStatuses
   \<and> filterVacancies
      \<lparr>searchFieldCB = 5, statusFilterCB = utf8 [208, 157, 208, 190, 208, 178, 208, 176, 209, 143],
       experienceFilterCB = [], searchEdit = ''zzz''\<rparr>
      [emptyVacancy\<lparr>Title := ''b'', Status := utf8 [208, 157, 208, 190, 208, 178, 208, 176, 209, 143]\<rparr>,
       emptyVacancy\<lparr>Title := ''c'', Status := utf8 [208, 158, 209, 130, 208, 186, 208, 176, 208, 183]\<rparr>,
       emptyVacancy\<lparr>Title := ''a'', Status := utf8 [208, 157, 208, 158, 208, 146, 208, 144, 208, 175]\<rparr>]
     = [emptyVacancy\<lparr>Title := ''b'', Status := utf8 [208, 157, 208, 190, 208, 178, 208, 176, 209, 143]\<rparr>,
        emptyVacancy\<lparr>Title := ''a'', Status := utf8 [208, 157, 208, 158, 208, 146, 208, 144, 208, 175]\<rparr>]
   \<and> utf8 [208, 157, 208, 181, 32, 209, 131, 208, 186, 208, 176, 208, 183, 208, 176, 208, 189] \<in> set possibleExperienceLevels
   \<and> filterVacancies
      \<lparr>searchFieldCB = 6, statusFilterCB = [],
       experienceFilterCB = utf8 [208, 157, 208, 181, 32, 209, 131, 208, 186, 208, 176, 208, 183, 208, 176, 208, 189], searchEdit = ''zzz''\<rparr>
      [emptyVacancy\<lparr>Title := ''b'', ExperienceLevel := utf8 [208, 157, 208, 181, 32, 209, 131, 208, 186, 208, 176, 208, 183, 208, 176, 208, 189]\<rparr>,
       emptyVacancy\<lparr>Title := ''c'', ExperienceLevel := ''1-3''\<rparr>]
     = [emptyVacancy\<lparr>Title := ''b'', ExperienceLevel := utf8 [208, 157, 208, 181, 32, 209, 131, 208, 186, 208, 176, 208, 183, 208, 176, 208, 189]\<rparr>]"
proof -
  have k: "foldKeys (utf8 [208, 157, 208, 190, 208, 178, 208, 176, 209, 143]) = [1085, 1086, 1074, 1072, 1103]"
    "foldKeys (utf8 [208, 157, 208, 158, 208, 146, 208, 144, 208, 175]) = [1085, 1086, 1074, 1072, 1103]"
    "foldKeys (utf8 [208, 158, 209, 130, 208, 186, 208, 176, 208, 183]) = [1086, 1090, 1082, 1072, 1079]"
    "foldKeys (utf8 [208, 157, 208, 181, 32, 209, 131, 208, 186, 208, 176, 208, 183, 208, 176, 208, 189]) = [1085, 1077, 32, 1091, 1082, 1072, 1079, 1072, 1085]"
    "foldKeys ''1-3'' = [49, 45, 51]"
    by (simp_all add: foldKeys_def bytesOf_def utf8_def isCont_def foldRune_def foldRanges_def)
  have m: "utf8 [208, 157, 208, 190, 208, 178, 208, 176, 209, 143] \<in> set possibleStatuses" "utf8 [208, 157, 208, 181, 32, 209, 131, 208, 186, 208, 176, 208, 183, 208, 176, 208, 189] \<in> set possibleExperienceLevels"
    by (simp_all add: possibleStatuses_def possibleExperienceLevels_def)
  from status_filter_exact [of "utf8 [208, 157, 208, 190, 208, 178, 208, 176, 209, 143]" "[]" "''zzz''"
      "[emptyVacancy\<lparr>Title := ''b'', Status := utf8 [208, 157, 208, 190, 208, 178, 208, 176, 209, 143]\<rparr>,
        emptyVacancy\<lparr>Title := ''c'', Status := utf8 [208, 158, 209, 130, 208, 186, 208, 176, 208, 183]\<rparr>,
        emptyVacancy\<lparr>Title := ''a'', Status := utf8 [208, 157, 208, 158, 208, 146, 208, 144, 208, 175]\<rparr>]",
      THEN conjunct1, THEN mp, OF m(1), THEN conjunct1]
  have a: "filterVacancies
      \<lparr>searchFieldCB = 5, statusFilterCB = utf8 [208, 157, 208, 190, 208, 178, 208, 176, 209, 143],
       experienceFilterCB = [], searchEdit = ''zzz''\<rparr>
      [emptyVacancy\<lparr>Title := ''b'', Status := utf8 [208, 157, 208, 190, 208, 178, 208, 176, 209, 143]\<rparr>,
       emptyVacancy\<lparr>Title := ''c'', Status := utf8 [208, 158, 209, 130, 208, 186, 208, 176, 208, 183]\<rparr>,
       emptyVacancy\<lparr>Title := ''a'', Status := utf8 [208, 157, 208, 158, 208, 146, 208, 144, 208, 175]\<rparr>]
     = [emptyVacancy\<lparr>Title := ''b'', Status := utf8 [208, 157, 208, 190, 208, 178, 208, 176, 209, 143]\<rparr>,
        emptyVacancy\<lparr>Title := ''a'', Status := utf8 [208, 157, 208, 158, 208, 146, 208, 144, 208, 175]\<rparr>]"
    by (simp add: m EqualFold_def k emptyVacancy_def)
  from status_filter_exact [of _ _ "''zzz''"
      "[emptyVacancy\<lparr>Title := ''b'', ExperienceLevel := utf8 [208, 157, 208, 181, 32, 209, 131, 208, 186, 208, 176, 208, 183, 208, 176, 208, 189]\<rparr>,
        emptyVacancy\<lparr>Title := ''c'', ExperienceLevel := ''1-3''\<rparr>]" _ _
      "utf8 [208, 157, 208, 181, 32, 209, 131, 208, 186, 208, 176, 208, 183, 208, 176, 208, 189]"
      "[]", THEN conjunct2, THEN conjunct1, THEN mp, OF m(2), THEN conjunct1]
  have b: "filterVacancies
      \<lparr>searchFieldCB = 6, statusFilterCB = [],
       experienceFilterCB = utf8 [208, 157, 208, 181, 32, 209, 131, 208, 186, 208, 176, 208, 183, 208, 176, 208, 189], searchEdit = ''zzz''\<rparr>
      [emptyVacancy\<lparr>Title := ''b'', ExperienceLevel := utf8 [208, 157, 208, 181, 32, 209, 131, 208, 186, 208, 176, 208, 183, 208, 176, 208, 189]\<rparr>,
       emptyVacancy\<lparr>Title := ''c'', ExperienceLevel := ''1-3''\<rparr>]
     = [emptyVacancy\<lparr>Title := ''b'', ExperienceLevel := utf8 [208, 157, 208, 181, 32, 209, 131, 208, 186, 208, 176, 208, 183, 208, 176, 208, 189]\<rparr>]"
    by (simp add: m EqualFold_def k emptyVacancy_def)
  from m a b show ?thesis by (simp only: simp_thms)
qed

lemma searchInFieldOf_free_text:
  assumes "searchFieldCB app \<noteq> 5" and "searchFieldCB app \<noteq> 6"
  shows "searchInFieldOf app \<noteq> fieldStatus \<and> searchInFieldOf app \<noteq> fieldExperience"
proof -
  consider "searchFieldCB app < 0" | "searchFieldCB app = 0" | "searchFieldCB app = 1"
    | "searchFieldCB app = 2" | "searchFieldCB app = 3" | "searchFieldCB app = 4"
    | "searchFieldCB app \<ge> 7"
    using assms by linarith
  then show ?thesis
    by cases
      (simp_all add: searchInFieldOf_def searchFields_def field_neq field_neq [symmetric])
qed

lemma filterVacancies_empty_query:
  assumes "searchFieldCB app \<noteq> 5" and "searchFieldCB app \<noteq> 6" and "searchEdit app = []"
  shows "filterVacancies app snapshot = snapshot"
proof -
  from assms(1,2) have f: "searchInFieldOf app \<noteq> fieldStatus"
    "searchInFieldOf app \<noteq> fieldExperience"
    using searchInFieldOf_free_text by simp_all
  with assms(3) have "searchTermOf app = []"
    by (simp add: searchTermOf_def ToLower_Nil)
  with f show ?thesis
    by (simp add: filterVacancies_def)
qed

text \<open>
  C6, as the code has it. With an empty search box and a selector other than status and
  experience, the filter step keeps the whole snapshot, content and order; the rows
  delivered are this snapshot sorted by the column and order of the table model, so
  the same records, in the order of the sort.
\<close>

theorem empty_query_keeps_all_then_sorts:
  assumes "searchFieldCB app \<noteq> 5" and "searchFieldCB app \<noteq> 6" and "searchEdit app = []"
  shows "filterVacancies app snapshot = snapshot
    \<and> performSearch app sortColumn sortOrder snapshot = Sort sortColumn sortOrder snapshot
    \<and> mset (performSearch app sortColumn sortOrder snapshot) = mset snapshot"
  using filterVacancies_empty_query [OF assms]
  by (simp add: performSearch_def Sort_def mset_SliceStable)

theorem empty_query_keeps_all_then_sorts_witness:
  "filterVacancies
      \<lparr>searchFieldCB = 1, statusFilterCB = ''x'', experienceFilterCB = ''y'', searchEdit = []\<rparr>
      [emptyVacancy\<lparr>Title := ''B''\<rparr>, emptyVacancy\<lparr>Title := ''a''\<rparr>]
     = [emptyVacancy\<lparr>Title := ''B''\<rparr>, emptyVacancy\<lparr>Title := ''a''\<rparr>]
   \<and> performSearch
      \<lparr>searchFieldCB = 1, statusFilterCB = ''x'', experienceFilterCB = ''y'', searchEdit = []\<rparr>
      0 SortAscending [emptyVacancy\<lparr>Title := ''B''\<rparr>, emptyVacancy\<lparr>Title := ''a''\<rparr>]
     = Sort 0 SortAscending [emptyVacancy\<lparr>Title := ''B''\<rparr>, emptyVacancy\<lparr>Title := ''a''\<rparr>]"
  using empty_query_keeps_all_then_sorts
      [of "\<lparr>searchFieldCB = 1, statusFilterCB = ''x'', experienceFilterCB = ''y'', searchEdit = []\<rparr>"
        "[emptyVacancy\<lparr>Title := ''B''\<rparr>, emptyVacancy\<lparr>Title := ''a''\<rparr>]" 0 SortAscending]
  by simp

text \<open>
  C6 as stated fails: the snapshot B, a with an empty search box and the selector on
  everywhere comes back as a, B when the table is sorted by title, ascending (the
  initial column and order of the model).
\<close>

theorem empty_query_reorders_counterexample:
  "performSearch
      \<lparr>searchFieldCB = 0, statusFilterCB = [], experienceFilterCB = [], searchEdit = []\<rparr>
      0 SortAscending [emptyVacancy\<lparr>Title := ''B''\<rparr>, emptyVacancy\<lparr>Title := ''a''\<rparr>]
     = [emptyVacancy\<lparr>Title := ''a''\<rparr>, emptyVacancy\<lparr>Title := ''B''\<rparr>]
   \<and> performSearch
      \<lparr>searchFieldCB = 0, statusFilterCB = [], experienceFilterCB = [], searchEdit = []\<rparr>
      0 SortAscending [emptyVacancy\<lparr>Title := ''B''\<rparr>, emptyVacancy\<lparr>Title := ''a''\<rparr>]
     \<noteq> [emptyVacancy\<lparr>Title := ''B''\<rparr>, emptyVacancy\<lparr>Title := ''a''\<rparr>]"
proof -
  have "filterVacancies
      \<lparr>searchFieldCB = 0, statusFilterCB = [], experienceFilterCB = [], searchEdit = []\<rparr>
      [emptyVacancy\<lparr>Title := ''B''\<rparr>, emptyVacancy\<lparr>Title := ''a''\<rparr>]
    = [emptyVacancy\<lparr>Title := ''B''\<rparr>, emptyVacancy\<lparr>Title := ''a''\<rparr>]"
    by (rule filterVacancies_empty_query) simp_all
  moreover have "Sort 0 SortAscending [emptyVacancy\<lparr>Title := ''B''\<rparr>, emptyVacancy\<lparr>Title := ''a''\<rparr>]
    = [emptyVacancy\<lparr>Title := ''a''\<rparr>, emptyVacancy\<lparr>Title := ''B''\<rparr>]"
    by code_simp
  moreover have "[emptyVacancy\<lparr>Title := ''a''\<rparr>, emptyVacancy\<lparr>Title := ''B''\<rparr>]
    \<noteq> [emptyVacancy\<lparr>Title := ''B''\<rparr>, emptyVacancy\<lparr>Title := ''a''\<rparr>]"
    by (simp add: emptyVacancy_def)
  ultimately show ?thesis
    by (simp only: performSearch_def simp_thms)
qed

subsection \<open>Sorting in ascending order\<close>

text \<open>
  With an ascending order \<^verbatim>\<open>Less\<close> is the strict order of the keys, and the sort is
  the stable sort by key: rows of equal key keep their order, and sorting twice is sorting
  once.
\<close>

lemma Less_ascending: "Less col SortAscending a b = (sortKey col a < sortKey col b)"
  by (simp add: Less_def sortKey_def)

lemma Less_descending: "Less col SortDescending a b = (\<not> sortKey col a < sortKey col b)"
  by (simp add: Less_def sortKey_def)

lemma set_insertLeft: "set (insertLeft lessFn x ys) = insert x (set ys)"
  by (induction ys) auto

lemma insertLeft_descending:
  fixes k :: "'a \<Rightarrow> 'b::linorder"
  assumes "sorted_wrt (\<lambda>a b. k b \<le> k a) ys"
  shows "sorted_wrt (\<lambda>a b. k b \<le> k a) (insertLeft (\<lambda>a b. k a < k b) x ys)"
  using assms by (induction ys) (auto simp: set_insertLeft)

lemma insertLeft_filter:
  fixes k :: "'a \<Rightarrow> 'b::linorder"
  shows "filter (\<lambda>y. k y = c) (insertLeft (\<lambda>a b. k a < k b) x ys) =
     (if k x = c then x # filter (\<lambda>y. k y = c) ys else filter (\<lambda>y. k y = c) ys)"
  by (induction ys) auto

lemma foldl_insertLeft_descending:
  fixes k :: "'a \<Rightarrow> 'b::linorder"
  assumes "sorted_wrt (\<lambda>a b. k b \<le> k a) acc"
  shows "sorted_wrt (\<lambda>a b. k b \<le> k a)
     (foldl (\<lambda>sorted x. insertLeft (\<lambda>a b. k a < k b) x sorted) acc xs)"
  using assms by (induction xs arbitrary: acc) (simp_all add: insertLeft_descending)

lemma foldl_insertLeft_filter:
  fixes k :: "'a \<Rightarrow> 'b::linorder"
  shows "filter (\<lambda>y. k y = c) (foldl (\<lambda>sorted x. insertLeft (\<lambda>a b. k a < k b) x sorted) acc xs) =
     rev (filter (\<lambda>y. k y = c) xs) @ filter (\<lambda>y. k y = c) acc"
  by (induction xs arbitrary: acc) (simp_all add: insertLeft_filter)

lemma SliceStable_sorted:
  fixes k :: "'a \<Rightarrow> 'b::linorder"
  shows "sorted (map k (SliceStable (\<lambda>a b. k a < k b) xs))"
proof -
  have "sorted_wrt (\<lambda>a b. k b \<le> k a)
     (foldl (\<lambda>sorted x. insertLeft (\<lambda>a b. k a < k b) x sorted) [] xs)"
    by (rule foldl_insertLeft_descending) simp
  then show ?thesis
    by (simp add: SliceStable_def sorted_map sorted_wrt_rev)
qed

lemma SliceStable_stable:
  fixes k :: "'a \<Rightarrow> 'b::linorder"
  shows "filter (\<lambda>y. k y = c) (SliceStable (\<lambda>a b. k a < k b) xs) = filter (\<lambda>y. k y = c) xs"
  by (simp add: SliceStable_def rev_filter [symmetric] foldl_insertLeft_filter)

lemma SliceStable_sort_key:
  fixes k :: "'a \<Rightarrow> 'b::linorder"
  shows "SliceStable (\<lambda>a b. k a < k b) xs = sort_key k xs"
proof (rule properties_for_sort_key [symmetric])
  show "mset (SliceStable (\<lambda>a b. k a < k b) xs) = mset xs"
    by (rule mset_SliceStable)
next
  fix y
  have "filter (\<lambda>x. k x = k y) (SliceStable (\<lambda>a b. k a < k b) xs) = filter (\<lambda>x. k x = k y) xs"
    by (rule SliceStable_stable)
  then show "filter (\<lambda>x. k y = k x) (SliceStable (\<lambda>a b. k a < k b) xs) = filter (\<lambda>x. k y = k x) xs"
    by (simp add: eq_commute [of "k y"])
next
  show "sorted (map k (SliceStable (\<lambda>a b. k a < k b) xs))"
    by (rule SliceStable_sorted)
qed

lemma Sort_ascending: "Sort col SortAscending rows = sort_key (sortKey col) rows"
proof -
  have "Less col SortAscending = (\<lambda>a b. sortKey col a < sortKey col b)"
    by (intro ext) (rule Less_ascending)
  then show ?thesis by (simp add: Sort_def SliceStable_sort_key)
qed

lemma Sort_ascending_sorted: "sorted (map (sortKey col) (Sort col SortAscending rows))"
  by (simp add: Sort_ascending)

lemma Sort_ascending_stable:
  "filter (\<lambda>v. sortKey col v = key) (Sort col SortAscending rows) =
     filter (\<lambda>v. sortKey col v = key) rows"
  by (simp add: Sort_ascending sort_key_stable)

lemma Sort_ascending_idempotent:
  "Sort col SortAscending (Sort col SortAscending rows) = Sort col SortAscending rows"
  by (simp add: Sort_ascending sort_key_id_if_sorted)

text \<open>
  With a descending order \<^verbatim>\<open>Less\<close> holds both ways between rows of equal key, and
  the sort exchanges two such rows.
\<close>

lemma Sort_descending_swaps_ties:
  "sortKey col a = sortKey col b \<Longrightarrow> Sort col SortDescending [a, b] = [b, a]"
  by (simp add: Sort_def SliceStable_def Less_descending)

text \<open>
  C7. \<^verbatim>\<open>Less\<close> answers a descending order with the negation of the ascending
  comparison, so two rows of equal key are each less than the other, and the insertion
  sort of \<^verbatim>\<open>sort.SliceStable\<close> moves the later one in front of the earlier one. The
  rows a/x and A/y have the same key by title: sorted by title, descending, they come
  back as A/y, a/x, and sorting that result once more gives a/x, A/y again. Ties are
  reversed and the sort is not idempotent.
\<close>

theorem descending_sort_reverses_ties:
  "Less 0 SortDescending (emptyVacancy\<lparr>Title := ''a'', Company := ''x''\<rparr>)
      (emptyVacancy\<lparr>Title := ''A'', Company := ''y''\<rparr>)
   \<and> Less 0 SortDescending (emptyVacancy\<lparr>Title := ''A'', Company := ''y''\<rparr>)
      (emptyVacancy\<lparr>Title := ''a'', Company := ''x''\<rparr>)
   \<and> Sort 0 SortDescending
        [emptyVacancy\<lparr>Title := ''a'', Company := ''x''\<rparr>, emptyVacancy\<lparr>Title := ''A'', Company := ''y''\<rparr>]
     = [emptyVacancy\<lparr>Title := ''A'', Company := ''y''\<rparr>, emptyVacancy\<lparr>Title := ''a'', Company := ''x''\<rparr>]
   \<and> Sort 0 SortDescending (Sort 0 SortDescending
        [emptyVacancy\<lparr>Title := ''a'', Company := ''x''\<rparr>, emptyVacancy\<lparr>Title := ''A'', Company := ''y''\<rparr>])
     = [emptyVacancy\<lparr>Title := ''a'', Company := ''x''\<rparr>, emptyVacancy\<lparr>Title := ''A'', Company := ''y''\<rparr>]"
  by code_simp


section \<open>Properties of the online search\<close>

lemma closedAt_mono: "closedAt ch i \<Longrightarrow> i \<le> j \<Longrightarrow> closedAt ch j"
  by (cases ch) (simp_all add: closedAt_def)

lemma closedAt_None [simp]: "\<not> closedAt None t"
  by (simp add: closedAt_def)

lemma foundLocally_iff:
  "foundLocally onlineV allVacancies \<longleftrightarrow>
     (\<exists>localV \<in> set allVacancies.
        EqualFold (Title onlineV) (Title localV) \<and> EqualFold (Company onlineV) (Company localV))"
  by (induction allVacancies) auto

lemma dedupLoop_cancel:
  "dedupLoop ch t joobleVacancies allVacancies acc = (outcome, n) \<Longrightarrow>
     t \<le> i \<Longrightarrow> i < n \<Longrightarrow> closedAt ch i \<Longrightarrow> outcome = Cancelled"
proof (induction ch t joobleVacancies allVacancies acc rule: dedupLoop.induct)
  case (1 ch t allVacancies acc)
  show ?case
  proof (cases "acc = []")
    case True
    with "1.prems"(1) have "n = t + 1" by (auto split: if_splits)
    with "1.prems"(2,3) have "i = t" by simp
    with True "1.prems"(1,4) show ?thesis by (auto split: if_splits)
  next
    case False
    with "1.prems"(1) have "n = t" by simp
    with "1.prems"(2,3) show ?thesis by simp
  qed
next
  case (2 ch t onlineV rest allVacancies acc)
  show ?case
  proof (cases "closedAt ch t")
    case True
    with "2.prems"(1) show ?thesis by simp
  next
    case False
    with "2.prems"(2,4) have i: "t + 1 \<le> i"
      by (cases "i = t") auto
    show ?thesis
    proof (cases "foundLocally onlineV allVacancies")
      case True
      with False "2.prems"(1)
      have "dedupLoop ch (t + 1) rest allVacancies acc = (outcome, n)" by simp
      with "2.IH"(2) False True i "2.prems"(3,4) show ?thesis by blast
    next
      case nf: False
      with False "2.prems"(1)
      have "dedupLoop ch (t + 1) rest allVacancies (acc @ [onlineV]) = (outcome, n)" by simp
      with "2.IH"(1) False nf i "2.prems"(3,4) show ?thesis by blast
    qed
  qed
qed

lemma dedupLoop_Results:
  "dedupLoop ch t joobleVacancies allVacancies acc = (Results rs, n) \<Longrightarrow>
     rs = acc @ filter (\<lambda>onlineV. \<not> foundLocally onlineV allVacancies) joobleVacancies"
  by (induction ch t joobleVacancies allVacancies acc rule: dedupLoop.induct)
     (auto split: if_splits)

lemma dedupLoop_open:
  "fst (dedupLoop None t joobleVacancies allVacancies acc) =
     Results (acc @ filter (\<lambda>onlineV. \<not> foundLocally onlineV allVacancies) joobleVacancies)"
  by (induction "None :: cancelChan" t joobleVacancies allVacancies acc rule: dedupLoop.induct)
     auto

lemma dedupLoop_not_closed:
  "\<not> closedAt ch (t + length joobleVacancies) \<Longrightarrow>
     \<exists>n. dedupLoop ch t joobleVacancies allVacancies acc =
       (Results (acc @ filter (\<lambda>onlineV. \<not> foundLocally onlineV allVacancies) joobleVacancies), n)"
proof (induction ch t joobleVacancies allVacancies acc rule: dedupLoop.induct)
  case (1 ch t allVacancies acc)
  then show ?case by simp
next
  case (2 ch t onlineV rest allVacancies acc)
  from "2.prems" have now: "\<not> closedAt ch t"
    using closedAt_mono [of ch t "t + length (onlineV # rest)"] by auto
  from "2.prems" have later: "\<not> closedAt ch (t + 1 + length rest)" by simp
  show ?case
  proof (cases "foundLocally onlineV allVacancies")
    case True
    with "2.IH"(2) [OF now _ later] now show ?thesis by simp
  next
    case False
    with "2.IH"(1) [OF now _ later] now show ?thesis by simp
  qed
qed

lemma mapJobs_count: "mapJobs ch t jobs acc = (res, t') \<Longrightarrow> t \<le> t'"
  by (induction ch t jobs acc rule: mapJobs.induct) (auto split: if_splits)

lemma searchVacanciesJooble_count: "searchVacanciesJooble ch t ex = (res, t') \<Longrightarrow> t \<le> t'"
  by (auto simp: searchVacanciesJooble_def split: option.splits if_splits sum.splits
        dest: mapJobs_count)

text \<open>
  C1. Whenever a checkpoint of the task of one online search finds the cancel channel
  closed, the outcome shown is Cancelled, whatever the call to the search client has
  returned, a list of records or an error. The checkpoints are those inside the client
  (after a failed request, before reading the body, before processing it, at every job),
  the one after the call, those of the loop that drops the records already stored, and
  the last one made when no record is left; \<open>n\<close> is how many of them the run has made.
\<close>

theorem cancellation_observed_wins:
  assumes "switchToOnlineSearchMode searchTerm ch ex allVacancies = Some (outcome, n)"
    and "\<exists>i < n. closedAt ch i"
  shows "outcome = Cancelled"
proof -
  from assms(1) have bt: "backgroundTask ch ex allVacancies = (outcome, n)"
    by (simp add: switchToOnlineSearchMode_def split: if_splits)
  obtain res t where s: "searchVacanciesJooble ch 0 ex = (res, t)"
    by (cases "searchVacanciesJooble ch 0 ex")
  show ?thesis
  proof (cases "closedAt ch t")
    case True
    with bt s show ?thesis by (simp add: backgroundTask_def)
  next
    case False
    with bt s have d: "deliverResult ch (t + 1) res allVacancies = (outcome, n)"
      by (simp add: backgroundTask_def)
    from assms(2) obtain i where i: "i < n" "closedAt ch i" by blast
    have ti: "t + 1 \<le> i"
    proof (rule ccontr)
      assume "\<not> t + 1 \<le> i"
      then have "i \<le> t" by simp
      with i(2) have "closedAt ch t" by (rule closedAt_mono)
      with False show False by simp
    qed
    show ?thesis
    proof (cases res)
      case (Inl err)
      with d have "n = t + 1" by (simp add: deliverResult_def split: if_splits)
      with ti i(1) show ?thesis by simp
    next
      case (Inr joobleVacancies)
      with d have "dedupLoop ch (t + 1) joobleVacancies allVacancies [] = (outcome, n)"
        by (simp add: deliverResult_def)
      then show ?thesis using ti i by (rule dedupLoop_cancel)
    qed
  qed
qed

theorem cancellation_observed_wins_witness:
  "searchVacanciesJooble (Some 4) 0
     \<lparr>marshalErr = None, newRequestErr = None, doErr = None, ctxCanceled = False, readErr = None,
     statusCode = 200, body = [],
     unmarshalResponse = Inr \<lparr>TotalCount = 2,
       Jobs = [\<lparr>jobTitle = ''QA'', jobLocation = [], jobSnippet = ''Tests'', jobSalary = [], jobSource = [],
         jobType = [], jobLink = [], jobCompany = ''Acme'', jobUpdated = [], jobID = ''2''\<rparr>,
        \<lparr>jobTitle = ''Go Dev'', jobLocation = [], jobSnippet = ''Backend'', jobSalary = [], jobSource = [],
         jobType = [], jobLink = ''http://x/1'', jobCompany = ''Acme'', jobUpdated = [], jobID = ''1''\<rparr>],
       Error = None\<rparr>,
     unmarshalError = None\<rparr>
   = (Inr [\<lparr>Title = ''Go Dev'', Company = ''Acme'', Description = ''Backend'', Keywords = [],
       SourceURL = ''http://x/1'', Status = possibleStatuses ! 0,
       ExperienceLevel = possibleExperienceLevels ! 0, Notes = [], ResumePath = [],
       ResumeFileName = []\<rparr>], 4)
   \<and> switchToOnlineSearchMode ''go'' (Some 4)
     \<lparr>marshalErr = None, newRequestErr = None, doErr = None, ctxCanceled = False, readErr = None,
     statusCode = 200, body = [],
     unmarshalResponse = Inr \<lparr>TotalCount = 2,
       Jobs = [\<lparr>jobTitle = ''QA'', jobLocation = [], jobSnippet = ''Tests'', jobSalary = [], jobSource = [],
         jobType = [], jobLink = [], jobCompany = ''Acme'', jobUpdated = [], jobID = ''2''\<rparr>,
        \<lparr>jobTitle = ''Go Dev'', jobLocation = [], jobSnippet = ''Backend'', jobSalary = [], jobSource = [],
         jobType = [], jobLink = ''http://x/1'', jobCompany = ''Acme'', jobUpdated = [], jobID = ''1''\<rparr>],
       Error = None\<rparr>,
     unmarshalError = None\<rparr> []
   = Some (Cancelled, 5)"
proof -
  have call: "searchVacanciesJooble (Some 4) 0
     \<lparr>marshalErr = None, newRequestErr = None, doErr = None, ctxCanceled = False, readErr = None,
     statusCode = 200, body = [],
     unmarshalResponse = Inr \<lparr>TotalCount = 2,
       Jobs = [\<lparr>jobTitle = ''QA'', jobLocation = [], jobSnippet = ''Tests'', jobSalary = [], jobSource = [],
         jobType = [], jobLink = [], jobCompany = ''Acme'', jobUpdated = [], jobID = ''2''\<rparr>,
        \<lparr>jobTitle = ''Go Dev'', jobLocation = [], jobSnippet = ''Backend'', jobSalary = [], jobSource = [],
         jobType = [], jobLink = ''http://x/1'', jobCompany = ''Acme'', jobUpdated = [], jobID = ''1''\<rparr>],
       Error = None\<rparr>,
     unmarshalError = None\<rparr>
   = (Inr [\<lparr>Title = ''Go Dev'', Company = ''Acme'', Description = ''Backend'', Keywords = [],
       SourceURL = ''http://x/1'', Status = possibleStatuses ! 0,
       ExperienceLevel = possibleExperienceLevels ! 0, Notes = [], ResumePath = [],
       ResumeFileName = []\<rparr>], 4)"
    by (simp add: searchVacanciesJooble_def closedAt_def jobToVacancy_def)
  then have run: "switchToOnlineSearchMode ''go'' (Some 4)
     \<lparr>marshalErr = None, newRequestErr = None, doErr = None, ctxCanceled = False, readErr = None,
     statusCode = 200, body = [],
     unmarshalResponse = Inr \<lparr>TotalCount = 2,
       Jobs = [\<lparr>jobTitle = ''QA'', jobLocation = [], jobSnippet = ''Tests'', jobSalary = [], jobSource = [],
         jobType = [], jobLink = [], jobCompany = ''Acme'', jobUpdated = [], jobID = ''2''\<rparr>,
        \<lparr>jobTitle = ''Go Dev'', jobLocation = [], jobSnippet = ''Backend'', jobSalary = [], jobSource = [],
         jobType = [], jobLink = ''http://x/1'', jobCompany = ''Acme'', jobUpdated = [], jobID = ''1''\<rparr>],
       Error = None\<rparr>,
     unmarshalError = None\<rparr> []
   = Some (Cancelled, 5)"
    by (simp add: switchToOnlineSearchMode_def backgroundTask_def closedAt_def)
  have seen: "\<exists>i < 5. closedAt (Some 4) i"
    by (rule exI [of _ 4]) (simp add: closedAt_def)
  from cancellation_observed_wins [OF run seen] call run show ?thesis by simp
qed

lemma mapJobs_Inr:
  "mapJobs ch t jobs acc = (Inr vacancies, t') \<Longrightarrow>
     vacancies = acc @ map jobToVacancy (filter (\<lambda>job. jobTitle job \<noteq> [] \<and> jobLink job \<noteq> []) jobs)"
  by (induction ch t jobs acc rule: mapJobs.induct) (auto split: if_splits)

lemma mapJobs_open:
  "mapJobs None t jobs acc =
     (Inr (acc @ map jobToVacancy (filter (\<lambda>job. jobTitle job \<noteq> [] \<and> jobLink job \<noteq> []) jobs)),
      t + length jobs)"
  by (induction "None :: cancelChan" t jobs acc rule: mapJobs.induct) auto

lemma searchVacanciesJooble_success:
  assumes "marshalErr ex = None" and "newRequestErr ex = None" and "doErr ex = None"
    and "readErr ex = None" and "statusCode ex = 200"
    and "unmarshalResponse ex = Inr joobleResp" and "Error joobleResp = None"
  shows "searchVacanciesJooble ch t ex =
     (if closedAt ch t then (Inl errCancelledBeforeRead, t + 1)
      else if closedAt ch (t + 1) then (Inl errCancelledBeforeProcessing, t + 2)
      else mapJobs ch (t + 2) (Jobs joobleResp) [])"
  using assms by (simp add: searchVacanciesJooble_def)

lemma Contains_append: "Contains s substr \<Longrightarrow> Contains (p @ s) substr"
  by (induction p) auto

text \<open>
  C3. The loop that compares the records returned by the search client with the store
  keeps exactly those that match no stored record in title and company under
  \<^verbatim>\<open>strings.EqualFold\<close> (Unicode case folding), in the order in which the client
  returned them. This is the list the loop ends with when the channel stays open, and
  the list of every outcome that carries results, of the loop and of the whole search.
  And the search delivers it: when the search text is not empty, the client has returned
  a list of records and no checkpoint up to the last one of the loop finds the channel
  closed, the outcome of \<^verbatim>\<open>switchToOnlineSearchMode\<close> is \<open>Results\<close> with exactly
  this list; with a channel that is never closed this holds of every list returned.
\<close>

theorem dedup_drops_exactly_stored:
  "fst (dedupLoop None t joobleVacancies allVacancies []) =
     Results (filter (\<lambda>onlineV. \<not> (\<exists>localV \<in> set allVacancies.
        EqualFold (Title onlineV) (Title localV) \<and> EqualFold (Company onlineV) (Company localV)))
        joobleVacancies)
   \<and> (dedupLoop ch t joobleVacancies allVacancies [] = (Results rs, n) \<longrightarrow>
       rs = filter (\<lambda>onlineV. \<not> (\<exists>localV \<in> set allVacancies.
        EqualFold (Title onlineV) (Title localV) \<and> EqualFold (Company onlineV) (Company localV)))
        joobleVacancies)
   \<and> (searchVacanciesJooble ch 0 ex = (Inr joobleVacancies, t') \<and>
      switchToOnlineSearchMode searchTerm ch ex allVacancies = Some (Results rs', n') \<longrightarrow>
       rs' = filter (\<lambda>onlineV. \<not> (\<exists>localV \<in> set allVacancies.
        EqualFold (Title onlineV) (Title localV) \<and> EqualFold (Company onlineV) (Company localV)))
        joobleVacancies)
   \<and> (searchTerm \<noteq> [] \<and> searchVacanciesJooble ch 0 ex = (Inr joobleVacancies, t') \<and>
      \<not> closedAt ch (t' + 1 + length joobleVacancies) \<longrightarrow>
       (\<exists>m. switchToOnlineSearchMode searchTerm ch ex allVacancies =
          Some (Results (filter (\<lambda>onlineV. \<not> (\<exists>localV \<in> set allVacancies.
        EqualFold (Title onlineV) (Title localV) \<and> EqualFold (Company onlineV) (Company localV)))
        joobleVacancies), m)))
   \<and> (searchTerm \<noteq> [] \<and> searchVacanciesJooble None 0 ex = (Inr joobleVacancies, t') \<longrightarrow>
       (\<exists>m. switchToOnlineSearchMode searchTerm None ex allVacancies =
          Some (Results (filter (\<lambda>onlineV. \<not> (\<exists>localV \<in> set allVacancies.
        EqualFold (Title onlineV) (Title localV) \<and> EqualFold (Company onlineV) (Company localV)))
        joobleVacancies), m)))"
proof (intro conjI impI)
  show "fst (dedupLoop None t joobleVacancies allVacancies []) =
     Results (filter (\<lambda>onlineV. \<not> (\<exists>localV \<in> set allVacancies.
        EqualFold (Title onlineV) (Title localV) \<and> EqualFold (Company onlineV) (Company localV)))
        joobleVacancies)"
    by (simp add: dedupLoop_open foundLocally_iff)
next
  assume "dedupLoop ch t joobleVacancies allVacancies [] = (Results rs, n)"
  from dedupLoop_Results [OF this]
  show "rs = filter (\<lambda>onlineV. \<not> (\<exists>localV \<in> set allVacancies.
        EqualFold (Title onlineV) (Title localV) \<and> EqualFold (Company onlineV) (Company localV)))
        joobleVacancies"
    by (simp add: foundLocally_iff)
next
  assume a: "searchVacanciesJooble ch 0 ex = (Inr joobleVacancies, t') \<and>
      switchToOnlineSearchMode searchTerm ch ex allVacancies = Some (Results rs', n')"
  then have "backgroundTask ch ex allVacancies = (Results rs', n')"
    by (simp add: switchToOnlineSearchMode_def split: if_splits)
  with a have "dedupLoop ch (t' + 1) joobleVacancies allVacancies [] = (Results rs', n')"
    by (simp add: backgroundTask_def deliverResult_def split: if_splits)
  from dedupLoop_Results [OF this]
  show "rs' = filter (\<lambda>onlineV. \<not> (\<exists>localV \<in> set allVacancies.
        EqualFold (Title onlineV) (Title localV) \<and> EqualFold (Company onlineV) (Company localV)))
        joobleVacancies"
    by (simp add: foundLocally_iff)
next
  assume a: "searchTerm \<noteq> [] \<and> searchVacanciesJooble ch 0 ex = (Inr joobleVacancies, t') \<and>
      \<not> closedAt ch (t' + 1 + length joobleVacancies)"
  then have "\<not> closedAt ch t'"
    using closedAt_mono [of ch t' "t' + 1 + length joobleVacancies"] by auto
  moreover from a obtain m where
    "dedupLoop ch (t' + 1) joobleVacancies allVacancies [] =
       (Results ([] @ filter (\<lambda>onlineV. \<not> foundLocally onlineV allVacancies) joobleVacancies), m)"
    using dedupLoop_not_closed [of ch "t' + 1" joobleVacancies allVacancies "[]"] by blast
  ultimately have "switchToOnlineSearchMode searchTerm ch ex allVacancies =
      Some (Results (filter (\<lambda>onlineV. \<not> (\<exists>localV \<in> set allVacancies.
        EqualFold (Title onlineV) (Title localV) \<and> EqualFold (Company onlineV) (Company localV)))
        joobleVacancies), m)"
    using a
    by (simp add: switchToOnlineSearchMode_def backgroundTask_def deliverResult_def
          foundLocally_iff)
  then show "\<exists>m. switchToOnlineSearchMode searchTerm ch ex allVacancies =
      Some (Results (filter (\<lambda>onlineV. \<not> (\<exists>localV \<in> set allVacancies.
        EqualFold (Title onlineV) (Title localV) \<and> EqualFold (Company onlineV) (Company localV)))
        joobleVacancies), m)" ..
next
  assume a: "searchTerm \<noteq> [] \<and> searchVacanciesJooble None 0 ex = (Inr joobleVacancies, t')"
  obtain m where
    "dedupLoop None (t' + 1) joobleVacancies allVacancies [] =
       (Results ([] @ filter (\<lambda>onlineV. \<not> foundLocally onlineV allVacancies) joobleVacancies), m)"
    using dedupLoop_not_closed [of None "t' + 1" joobleVacancies allVacancies "[]"] by auto
  with a have "switchToOnlineSearchMode searchTerm None ex allVacancies =
      Some (Results (filter (\<lambda>onlineV. \<not> (\<exists>localV \<in> set allVacancies.
        EqualFold (Title onlineV) (Title localV) \<and> EqualFold (Company onlineV) (Company localV)))
        joobleVacancies), m)"
    by (simp add: switchToOnlineSearchMode_def backgroundTask_def deliverResult_def
          foundLocally_iff)
  then show "\<exists>m. switchToOnlineSearchMode searchTerm None ex allVacancies =
      Some (Results (filter (\<lambda>onlineV. \<not> (\<exists>localV \<in> set allVacancies.
        EqualFold (Title onlineV) (Title localV) \<and> EqualFold (Company onlineV) (Company localV)))
        joobleVacancies), m)" ..
qed

text \<open>
  The store holds \<open>U+0420 U+0430 U+0437 U+0440 U+0430 U+0431 U+043E U+0442 U+0447 U+0438 U+043A\<close>
  at Acme. The client returns the same title in capitals at ACME, and QA at Acme: the
  search delivers QA alone.
\<close>

theorem dedup_drops_exactly_stored_witness:
  "searchVacanciesJooble None 0
     \<lparr>marshalErr = None, newRequestErr = None, doErr = None, ctxCanceled = False, readErr = None,
     statusCode = 200, body = [],
     unmarshalResponse = Inr \<lparr>TotalCount = 2,
       Jobs = [\<lparr>jobTitle = utf8 [208, 160, 208, 144, 208, 151, 208, 160, 208, 144, 208, 145, 208, 158, 208, 162, 208, 167, 208, 152, 208, 154],
         jobLocation = [], jobSnippet = ''Backend'', jobSalary = [], jobSource = [],
         jobType = [], jobLink = ''http://x/1'', jobCompany = ''ACME'', jobUpdated = [],
         jobID = ''1''\<rparr>,
        \<lparr>jobTitle = ''QA'', jobLocation = [], jobSnippet = ''Tests'', jobSalary = [],
         jobSource = [], jobType = [], jobLink = ''http://x/2'', jobCompany = ''Acme'',
         jobUpdated = [], jobID = ''2''\<rparr>],
       Error = None\<rparr>,
     unmarshalError = None\<rparr>
   = (Inr [\<lparr>Title = utf8 [208, 160, 208, 144, 208, 151, 208, 160, 208, 144, 208, 145, 208, 158, 208, 162, 208, 167, 208, 152, 208, 154],
       Company = ''ACME'', Description = ''Backend'', Keywords = [],
       SourceURL = ''http://x/1'', Status = possibleStatuses ! 0,
       ExperienceLevel = possibleExperienceLevels ! 0, Notes = [], ResumePath = [],
       ResumeFileName = []\<rparr>,
      \<lparr>Title = ''QA'', Company = ''Acme'', Description = ''Tests'', Keywords = [],
       SourceURL = ''http://x/2'', Status = possibleStatuses ! 0,
       ExperienceLevel = possibleExperienceLevels ! 0, Notes = [], ResumePath = [],
       ResumeFileName = []\<rparr>], 4)
   \<and> (\<exists>m. switchToOnlineSearchMode ''go'' None
     \<lparr>marshalErr = None, newRequestErr = None, doErr = None, ctxCanceled = False, readErr = None,
     statusCode = 200, body = [],
     unmarshalResponse = Inr \<lparr>TotalCount = 2,
       Jobs = [\<lparr>jobTitle = utf8 [208, 160, 208, 144, 208, 151, 208, 160, 208, 144, 208, 145, 208, 158, 208, 162, 208, 167, 208, 152, 208, 154],
         jobLocation = [], jobSnippet = ''Backend'', jobSalary = [], jobSource = [],
         jobType = [], jobLink = ''http://x/1'', jobCompany = ''ACME'', jobUpdated = [],
         jobID = ''1''\<rparr>,
        \<lparr>jobTitle = ''QA'', jobLocation = [], jobSnippet = ''Tests'', jobSalary = [],
         jobSource = [], jobType = [], jobLink = ''http://x/2'', jobCompany = ''Acme'',
         jobUpdated = [], jobID = ''2''\<rparr>],
       Error = None\<rparr>,
     unmarshalError = None\<rparr>
     [emptyVacancy\<lparr>Title := utf8 [208, 160, 208, 176, 208, 183, 209, 128, 208, 176, 208, 177, 208, 190, 209, 130, 209, 135, 208, 184, 208, 186],
       Company := ''Acme''\<rparr>]
   = Some (Results [\<lparr>Title = ''QA'', Company = ''Acme'', Description = ''Tests'', Keywords = [],
       SourceURL = ''http://x/2'', Status = possibleStatuses ! 0,
       ExperienceLevel = possibleExperienceLevels ! 0, Notes = [], ResumePath = [],
       ResumeFileName = []\<rparr>], m))
   \<and> fst (dedupLoop None 0
       [\<lparr>Title = utf8 [208, 160, 208, 144, 208, 151, 208, 160, 208, 144, 208, 145, 208, 158, 208, 162, 208, 167, 208, 152, 208, 154],
       Company = ''ACME'', Description = ''Backend'', Keywords = [],
       SourceURL = ''http://x/1'', Status = possibleStatuses ! 0,
       ExperienceLevel = possibleExperienceLevels ! 0, Notes = [], ResumePath = [],
       ResumeFileName = []\<rparr>,
        \<lparr>Title = ''QA'', Company = ''Acme'', Description = ''Tests'', Keywords = [],
       SourceURL = ''http://x/2'', Status = possibleStatuses ! 0,
       ExperienceLevel = possibleExperienceLevels ! 0, Notes = [], ResumePath = [],
       ResumeFileName = []\<rparr>]
       [emptyVacancy\<lparr>Title := utf8 [208, 160, 208, 176, 208, 183, 209, 128, 208, 176, 208, 177, 208, 190, 209, 130, 209, 135, 208, 184, 208, 186],
       Company := ''Acme''\<rparr>] [])
   = Results [\<lparr>Title = ''QA'', Company = ''Acme'', Description = ''Tests'', Keywords = [],
       SourceURL = ''http://x/2'', Status = possibleStatuses ! 0,
       ExperienceLevel = possibleExperienceLevels ! 0, Notes = [], ResumePath = [],
       ResumeFileName = []\<rparr>]"
proof -
  have call: "searchVacanciesJooble None 0
     \<lparr>marshalErr = None, newRequestErr = None, doErr = None, ctxCanceled = False, readErr = None,
     statusCode = 200, body = [],
     unmarshalResponse = Inr \<lparr>TotalCount = 2,
       Jobs = [\<lparr>jobTitle = utf8 [208, 160, 208, 144, 208, 151, 208, 160, 208, 144, 208, 145, 208, 158, 208, 162, 208, 167, 208, 152, 208, 154],
         jobLocation = [], jobSnippet = ''Backend'', jobSalary = [], jobSource = [],
         jobType = [], jobLink = ''http://x/1'', jobCompany = ''ACME'', jobUpdated = [],
         jobID = ''1''\<rparr>,
        \<lparr>jobTitle = ''QA'', jobLocation = [], jobSnippet = ''Tests'', jobSalary = [],
         jobSource = [], jobType = [], jobLink = ''http://x/2'', jobCompany = ''Acme'',
         jobUpdated = [], jobID = ''2''\<rparr>],
       Error = None\<rparr>,
     unmarshalError = None\<rparr>
   = (Inr [\<lparr>Title = utf8 [208, 160, 208, 144, 208, 151, 208, 160, 208, 144, 208, 145, 208, 158, 208, 162, 208, 167, 208, 152, 208, 154],
       Company = ''ACME'', Description = ''Backend'', Keywords = [],
       SourceURL = ''http://x/1'', Status = possibleStatuses ! 0,
       ExperienceLevel = possibleExperienceLevels ! 0, Notes = [], ResumePath = [],
       ResumeFileName = []\<rparr>,
      \<lparr>Title = ''QA'', Company = ''Acme'', Description = ''Tests'', Keywords = [],
       SourceURL = ''http://x/2'', Status = possibleStatuses ! 0,
       ExperienceLevel = possibleExperienceLevels ! 0, Notes = [], ResumePath = [],
       ResumeFileName = []\<rparr>], 4)"
    by (simp add: searchVacanciesJooble_def jobToVacancy_def utf8_def)
  have k: "foldKeys (utf8 [208, 160, 208, 144, 208, 151, 208, 160, 208, 144, 208, 145, 208, 158, 208, 162, 208, 167, 208, 152, 208, 154])
      = [1088, 1072, 1079, 1088, 1072, 1073, 1086, 1090, 1095, 1080, 1082]"
    "foldKeys (utf8 [208, 160, 208, 176, 208, 183, 209, 128, 208, 176, 208, 177, 208, 190, 209, 130, 209, 135, 208, 184, 208, 186])
      = [1088, 1072, 1079, 1088, 1072, 1073, 1086, 1090, 1095, 1080, 1082]"
    "foldKeys ''ACME'' = [97, 99, 109, 101]" "foldKeys ''Acme'' = [97, 99, 109, 101]"
    "foldKeys ''QA'' = [113, 97]"
    by (simp_all add: foldKeys_def bytesOf_def utf8_def isCont_def foldRune_def foldRanges_def)
  note t = dedup_drops_exactly_stored [of 0
       "[\<lparr>Title = utf8 [208, 160, 208, 144, 208, 151, 208, 160, 208, 144, 208, 145, 208, 158, 208, 162, 208, 167, 208, 152, 208, 154],
       Company = ''ACME'', Description = ''Backend'', Keywords = [],
       SourceURL = ''http://x/1'', Status = possibleStatuses ! 0,
       ExperienceLevel = possibleExperienceLevels ! 0, Notes = [], ResumePath = [],
       ResumeFileName = []\<rparr>,
        \<lparr>Title = ''QA'', Company = ''Acme'', Description = ''Tests'', Keywords = [],
       SourceURL = ''http://x/2'', Status = possibleStatuses ! 0,
       ExperienceLevel = possibleExperienceLevels ! 0, Notes = [], ResumePath = [],
       ResumeFileName = []\<rparr>]"
       "[emptyVacancy\<lparr>Title := utf8 [208, 160, 208, 176, 208, 183, 209, 128, 208, 176, 208, 177, 208, 190, 209, 130, 209, 135, 208, 184, 208, 186],
       Company := ''Acme''\<rparr>]" None "[]" 0
     "\<lparr>marshalErr = None, newRequestErr = None, doErr = None, ctxCanceled = False, readErr = None,
     statusCode = 200, body = [],
     unmarshalResponse = Inr \<lparr>TotalCount = 2,
       Jobs = [\<lparr>jobTitle = utf8 [208, 160, 208, 144, 208, 151, 208, 160, 208, 144, 208, 145, 208, 158, 208, 162, 208, 167, 208, 152, 208, 154],
         jobLocation = [], jobSnippet = ''Backend'', jobSalary = [], jobSource = [],
         jobType = [], jobLink = ''http://x/1'', jobCompany = ''ACME'', jobUpdated = [],
         jobID = ''1''\<rparr>,
        \<lparr>jobTitle = ''QA'', jobLocation = [], jobSnippet = ''Tests'', jobSalary = [],
         jobSource = [], jobType = [], jobLink = ''http://x/2'', jobCompany = ''Acme'',
         jobUpdated = [], jobID = ''2''\<rparr>],
       Error = None\<rparr>,
     unmarshalError = None\<rparr>" 4 "''go''" "[]" 0]
  from t [THEN conjunct2, THEN conjunct2, THEN conjunct2, THEN conjunct2] call
  have run: "\<exists>m. switchToOnlineSearchMode ''go'' None
     \<lparr>marshalErr = None, newRequestErr = None, doErr = None, ctxCanceled = False, readErr = None,
     statusCode = 200, body = [],
     unmarshalResponse = Inr \<lparr>TotalCount = 2,
       Jobs = [\<lparr>jobTitle = utf8 [208, 160, 208, 144, 208, 151, 208, 160, 208, 144, 208, 145, 208, 158, 208, 162, 208, 167, 208, 152, 208, 154],
         jobLocation = [], jobSnippet = ''Backend'', jobSalary = [], jobSource = [],
         jobType = [], jobLink = ''http://x/1'', jobCompany = ''ACME'', jobUpdated = [],
         jobID = ''1''\<rparr>,
        \<lparr>jobTitle = ''QA'', jobLocation = [], jobSnippet = ''Tests'', jobSalary = [],
         jobSource = [], jobType = [], jobLink = ''http://x/2'', jobCompany = ''Acme'',
         jobUpdated = [], jobID = ''2''\<rparr>],
       Error = None\<rparr>,
     unmarshalError = None\<rparr>
     [emptyVacancy\<lparr>Title := utf8 [208, 160, 208, 176, 208, 183, 209, 128, 208, 176, 208, 177, 208, 190, 209, 130, 209, 135, 208, 184, 208, 186],
       Company := ''Acme''\<rparr>]
   = Some (Results [\<lparr>Title = ''QA'', Company = ''Acme'', Description = ''Tests'', Keywords = [],
       SourceURL = ''http://x/2'', Status = possibleStatuses ! 0,
       ExperienceLevel = possibleExperienceLevels ! 0, Notes = [], ResumePath = [],
       ResumeFileName = []\<rparr>], m)"
    by (simp add: EqualFold_def k emptyVacancy_def)
  from t [THEN conjunct1]
  have loop: "fst (dedupLoop None 0
       [\<lparr>Title = utf8 [208, 160, 208, 144, 208, 151, 208, 160, 208, 144, 208, 145, 208, 158, 208, 162, 208, 167, 208, 152, 208, 154],
       Company = ''ACME'', Description = ''Backend'', Keywords = [],
       SourceURL = ''http://x/1'', Status = possibleStatuses ! 0,
       ExperienceLevel = possibleExperienceLevels ! 0, Notes = [], ResumePath = [],
       ResumeFileName = []\<rparr>,
        \<lparr>Title = ''QA'', Company = ''Acme'', Description = ''Tests'', Keywords = [],
       SourceURL = ''http://x/2'', Status = possibleStatuses ! 0,
       ExperienceLevel = possibleExperienceLevels ! 0, Notes = [], ResumePath = [],
       ResumeFileName = []\<rparr>]
       [emptyVacancy\<lparr>Title := utf8 [208, 160, 208, 176, 208, 183, 209, 128, 208, 176, 208, 177, 208, 190, 209, 130, 209, 135, 208, 184, 208, 186],
       Company := ''Acme''\<rparr>] [])
   = Results [\<lparr>Title = ''QA'', Company = ''Acme'', Description = ''Tests'', Keywords = [],
       SourceURL = ''http://x/2'', Status = possibleStatuses ! 0,
       ExperienceLevel = possibleExperienceLevels ! 0, Notes = [], ResumePath = [],
       ResumeFileName = []\<rparr>]"
    by (simp add: EqualFold_def k emptyVacancy_def)
  from call run loop show ?thesis by (simp only: simp_thms)
qed

text \<open>
  C8. On a successful response (nothing fails, the status is 200, the body decodes and
  carries no error) the records returned are the jobs that have both a title and a link,
  in their order, each mapped to a record with the job's title, company, snippet (as
  description) and link (as source URL), no keyword, the first status and the first
  experience level of the enumerations, and empty notes: this is the result when the
  channel stays open, and every list that the client returns.
\<close>

theorem jooble_jobs_mapped:
  assumes "marshalErr ex = None" and "newRequestErr ex = None" and "doErr ex = None"
    and "readErr ex = None" and "statusCode ex = 200"
    and "unmarshalResponse ex = Inr joobleResp" and "Error joobleResp = None"
  shows "fst (searchVacanciesJooble None t ex) =
      Inr (map (\<lambda>job. \<lparr>Title = jobTitle job, Company = jobCompany job,
                Description = jobSnippet job, Keywords = [], SourceURL = jobLink job,
                Status = possibleStatuses ! 0, ExperienceLevel = possibleExperienceLevels ! 0,
                Notes = [], ResumePath = [], ResumeFileName = []\<rparr>)
             (filter (\<lambda>job. jobTitle job \<noteq> [] \<and> jobLink job \<noteq> []) (Jobs joobleResp)))
    \<and> (fst (searchVacanciesJooble ch t ex) = Inr vacancies \<longrightarrow>
        vacancies =
          map (\<lambda>job. \<lparr>Title = jobTitle job, Company = jobCompany job,
                Description = jobSnippet job, Keywords = [], SourceURL = jobLink job,
                Status = possibleStatuses ! 0, ExperienceLevel = possibleExperienceLevels ! 0,
                Notes = [], ResumePath = [], ResumeFileName = []\<rparr>)
             (filter (\<lambda>job. jobTitle job \<noteq> [] \<and> jobLink job \<noteq> []) (Jobs joobleResp)))"
proof -
  have m: "jobToVacancy = (\<lambda>job. \<lparr>Title = jobTitle job, Company = jobCompany job,
                Description = jobSnippet job, Keywords = [], SourceURL = jobLink job,
                Status = possibleStatuses ! 0, ExperienceLevel = possibleExperienceLevels ! 0,
                Notes = [], ResumePath = [], ResumeFileName = []\<rparr>)"
    by (rule ext) (simp add: jobToVacancy_def)
  have 1: "fst (searchVacanciesJooble None t ex) =
      Inr (map jobToVacancy
             (filter (\<lambda>job. jobTitle job \<noteq> [] \<and> jobLink job \<noteq> []) (Jobs joobleResp)))"
    by (simp add: searchVacanciesJooble_success [OF assms] mapJobs_open)
  have 2: "vacancies = map jobToVacancy
             (filter (\<lambda>job. jobTitle job \<noteq> [] \<and> jobLink job \<noteq> []) (Jobs joobleResp))"
    if "fst (searchVacanciesJooble ch t ex) = Inr vacancies"
  proof -
    from that obtain t' where "mapJobs ch (t + 2) (Jobs joobleResp) [] = (Inr vacancies, t')"
      by (cases "mapJobs ch (t + 2) (Jobs joobleResp) []")
         (auto simp: searchVacanciesJooble_success [OF assms] split: if_splits)
    from mapJobs_Inr [OF this] show ?thesis by simp
  qed
  from 1 2 show ?thesis unfolding m by blast
qed

theorem jooble_jobs_mapped_witness:
  "fst (searchVacanciesJooble None 0
     \<lparr>marshalErr = None, newRequestErr = None, doErr = None, ctxCanceled = False, readErr = None,
     statusCode = 200, body = [],
     unmarshalResponse = Inr \<lparr>TotalCount = 2,
       Jobs = [\<lparr>jobTitle = ''QA'', jobLocation = [], jobSnippet = ''Tests'', jobSalary = [], jobSource = [],
         jobType = [], jobLink = [], jobCompany = ''Acme'', jobUpdated = [], jobID = ''2''\<rparr>,
        \<lparr>jobTitle = ''Go Dev'', jobLocation = [], jobSnippet = ''Backend'', jobSalary = [], jobSource = [],
         jobType = [], jobLink = ''http://x/1'', jobCompany = ''Acme'', jobUpdated = [], jobID = ''1''\<rparr>],
       Error = None\<rparr>,
     unmarshalError = None\<rparr>)
   = Inr [\<lparr>Title = ''Go Dev'', Company = ''Acme'', Description = ''Backend'', Keywords = [],
       SourceURL = ''http://x/1'', Status = possibleStatuses ! 0,
       ExperienceLevel = possibleExperienceLevels ! 0, Notes = [], ResumePath = [],
       ResumeFileName = []\<rparr>]"
  using jooble_jobs_mapped [of
     "\<lparr>marshalErr = None, newRequestErr = None, doErr = None, ctxCanceled = False, readErr = None,
     statusCode = 200, body = [],
     unmarshalResponse = Inr \<lparr>TotalCount = 2,
       Jobs = [\<lparr>jobTitle = ''QA'', jobLocation = [], jobSnippet = ''Tests'', jobSalary = [], jobSource = [],
         jobType = [], jobLink = [], jobCompany = ''Acme'', jobUpdated = [], jobID = ''2''\<rparr>,
        \<lparr>jobTitle = ''Go Dev'', jobLocation = [], jobSnippet = ''Backend'', jobSalary = [], jobSource = [],
         jobType = [], jobLink = ''http://x/1'', jobCompany = ''Acme'', jobUpdated = [], jobID = ''1''\<rparr>],
       Error = None\<rparr>,
     unmarshalError = None\<rparr>"
     "\<lparr>TotalCount = 2,
       Jobs = [\<lparr>jobTitle = ''QA'', jobLocation = [], jobSnippet = ''Tests'', jobSalary = [], jobSource = [],
         jobType = [], jobLink = [], jobCompany = ''Acme'', jobUpdated = [], jobID = ''2''\<rparr>,
        \<lparr>jobTitle = ''Go Dev'', jobLocation = [], jobSnippet = ''Backend'', jobSalary = [], jobSource = [],
         jobType = [], jobLink = ''http://x/1'', jobCompany = ''Acme'', jobUpdated = [], jobID = ''1''\<rparr>],
       Error = None\<rparr>" 0]
  by simp

text \<open>
  C9, as the code has it. When \<^verbatim>\<open>client.Do\<close> fails, the search client tells a
  cancelled request from another transport failure by the cancel channel and then by the
  error of the request context, whatever the text of the error of \<^verbatim>\<open>Do\<close> is. The
  caller, once the checkpoint after the call has found the channel open, goes by the text:
  an error whose text contains \<^verbatim>\<open>context canceled\<close> is shown as a cancellation, any
  other as a failure.
\<close>

theorem transport_failure_by_state_then_text:
  assumes "marshalErr ex = None" and "newRequestErr ex = None" and "doErr ex = Some err"
  shows "searchVacanciesJooble ch t ex =
      (Inl (if closedAt ch t then errCancelledUI
            else if ctxCanceled ex then errCancelledContext
            else errDoPrefix @ err), t + 1)
    \<and> deliverResult ch t' (Inl e) allVacancies =
      ((if Contains e ''context canceled'' then Cancelled else Failed e), t')"
  using assms by (simp add: searchVacanciesJooble_def deliverResult_def)

theorem transport_failure_by_state_then_text_witness:
  "searchVacanciesJooble None 0
     \<lparr>marshalErr = None, newRequestErr = None, doErr = Some ''connection refused'', ctxCanceled = False,
     readErr = None, statusCode = 0, body = [], unmarshalResponse = Inl [], unmarshalError = None\<rparr>
   = (Inl (errDoPrefix @ ''connection refused''), 1)
   \<and> deliverResult None 1 (Inl ''connection refused'') [] = (Failed ''connection refused'', 1)"
proof -
  have "\<not> Contains ''connection refused'' ''context canceled''" by simp
  with transport_failure_by_state_then_text [of
     "\<lparr>marshalErr = None, newRequestErr = None, doErr = Some ''connection refused'', ctxCanceled = False,
     readErr = None, statusCode = 0, body = [], unmarshalResponse = Inl [], unmarshalError = None\<rparr>"
     "''connection refused''" None 0 1 "''connection refused''" "[]"]
  show ?thesis by simp
qed

text \<open>
  C9 as stated fails. With the cancel channel never closed and the request context never
  cancelled, two failures of \<^verbatim>\<open>client.Do\<close> that differ only in the text of their
  error are told apart by that text: the one whose text contains
  \<^verbatim>\<open>context canceled\<close> is shown as a cancelled search, the other as a failed one. The
  same happens to two responses of status 503 that differ only in their body.
\<close>

theorem error_text_decides_counterexample:
  "backgroundTask None
     \<lparr>marshalErr = None, newRequestErr = None, doErr = Some ''read tcp: context canceled'',
     ctxCanceled = False, readErr = None, statusCode = 0, body = [], unmarshalResponse = Inl [],
     unmarshalError = None\<rparr> []
   = (Cancelled, 2)
   \<and> backgroundTask None
     \<lparr>marshalErr = None, newRequestErr = None, doErr = Some ''read tcp: connection reset'',
     ctxCanceled = False, readErr = None, statusCode = 0, body = [], unmarshalResponse = Inl [],
     unmarshalError = None\<rparr> []
   = (Failed (errDoPrefix @ ''read tcp: connection reset''), 2)
   \<and> backgroundTask None
     \<lparr>marshalErr = None, newRequestErr = None, doErr = None, ctxCanceled = False,
     readErr = None, statusCode = 503, body = ''upstream: context canceled'',
     unmarshalResponse = Inl [], unmarshalError = None\<rparr> []
   = (Cancelled, 3)
   \<and> backgroundTask None
     \<lparr>marshalErr = None, newRequestErr = None, doErr = None, ctxCanceled = False,
     readErr = None, statusCode = 503, body = ''upstream: timeout'',
     unmarshalResponse = Inl [], unmarshalError = None\<rparr> []
   = (Failed (errStatusPrefix @ ''503): upstream: timeout''), 3)"
proof -
  have f: "formatInt 503 = ''503''" by code_simp
  have 1: "Contains (errDoPrefix @ ''read tcp: context canceled'') ''context canceled''"
    by (rule Contains_append) simp
  have 2: "\<not> Contains (errDoPrefix @ ''read tcp: connection reset'') ''context canceled''"
    by code_simp
  have 3: "Contains (errStatusPrefix @ ''503): upstream: context canceled'') ''context canceled''"
    by (rule Contains_append) simp
  have 4: "\<not> Contains (errStatusPrefix @ ''503): upstream: timeout'') ''context canceled''"
    by code_simp
  from 1 2 3 4 show ?thesis
    by (simp add: backgroundTask_def searchVacanciesJooble_def deliverResult_def f)
qed

section \<open>Properties of closing the cancel channel\<close>

lemma handler_closes:
  "cancelClicked closed = Some True" "backToLocalClicked closed = Some True"
  by (simp_all add: cancelClicked_def backToLocalClicked_def closeChan_def)

lemma handleClicks_closed: "handleClicks clicks True = Some True"
proof (induction clicks)
  case Nil
  show ?case by simp
next
  case (Cons c clicks)
  then show ?case by (cases c) (simp_all add: handler_closes)
qed

text \<open>
  C4, as the code has it. The cancel action and the navigate-away action, taken one after
  the other in any number and order, never panic, and once one of them has run the
  channel is closed and stays closed; in particular either action taken twice, or both,
  on one channel is safe. Two callers that each run their handler to the end in turn are
  safe in the same way.
\<close>

theorem clicks_in_turn_never_panic:
  "handleClicks clicks closed \<noteq> None
   \<and> (clicks \<noteq> [] \<longrightarrow> handleClicks clicks closed = Some True)
   \<and> handleClicks [c, c'] False = Some True
   \<and> interleave [False, False, True, True] (False, AtSelect, AtSelect) = Some (True, Done, Done)"
proof (intro conjI impI)
  show "handleClicks clicks closed \<noteq> None"
    by (cases clicks; cases closed; cases "hd clicks")
       (simp_all add: handler_closes handleClicks_closed)
next
  assume "clicks \<noteq> []"
  then show "handleClicks clicks closed = Some True"
    by (cases clicks; cases "hd clicks") (simp_all add: handler_closes handleClicks_closed)
next
  show "handleClicks [c, c'] False = Some True"
    by (cases c; cases c') (simp_all add: handler_closes)
next
  show "interleave [False, False, True, True] (False, AtSelect, AtSelect) = Some (True, Done, Done)"
    by (simp add: closeChan_def)
qed

theorem clicks_in_turn_never_panic_witness:
  "handleClicks [CancelButton, BackButton, CancelButton] False = Some True
   \<and> handleClicks [CancelButton, CancelButton] False = Some True"
  using clicks_in_turn_never_panic [of "[CancelButton, BackButton, CancelButton]" False
      CancelButton CancelButton]
  by simp

text \<open>
  C4 as stated fails for two callers at once: the read and the close are two steps, and
  when both callers read the open channel before either closes it, the second close
  panics.
\<close>

theorem concurrent_close_panics_counterexample:
  "interleave [False, True, False, True] (False, AtSelect, AtSelect) = None"
  by (simp add: closeChan_def)

end
